theory Spec2Isabelle
  imports Main
begin

section \<open>Strings: the parts of Go's \<^verbatim>\<open>strings\<close> package the container uses\<close>

text \<open>
  A Go string is modelled as a list of characters, each a code point below 256.
  \<^verbatim>\<open>unicode.IsSpace\<close> on that range is: tab, line feed, vertical tab, form feed,
  carriage return, space, U+0085 and U+00A0.
\<close>

definition isSpace :: "char \<Rightarrow> bool" where
  "isSpace c = (c = CHR 0x09 \<or> c = CHR 0x0A \<or> c = CHR 0x0B \<or> c = CHR 0x0C \<or>
                c = CHR 0x0D \<or> c = CHR 0x20 \<or> c = CHR 0x85 \<or> c = CHR 0xA0)"

text \<open>\<^verbatim>\<open>strings.TrimSpace\<close>: leading and trailing white space removed.\<close>

definition TrimSpace :: "string \<Rightarrow> string" where
  "TrimSpace s = rev (dropWhile isSpace (rev (dropWhile isSpace s)))"

text \<open>
  \<^verbatim>\<open>strings.Split(s, ",")\<close>: the segments between the commas, in order; a string with
  n commas has n + 1 segments, so the empty string has the one segment \<^verbatim>\<open>""\<close>.
\<close>

fun Split :: "string \<Rightarrow> string list" where
  "Split [] = [[]]"
| "Split (c # cs) =
     (if c = CHR '','' then [] # Split cs
      else (c # hd (Split cs)) # tl (Split cs))"

text \<open>\<^verbatim>\<open>strings.Join(names, ",")\<close>.\<close>

fun Join :: "string list \<Rightarrow> string" where
  "Join [] = []"
| "Join [x] = x"
| "Join (x # y # ys) = x @ '','' @ Join (y # ys)"

section \<open>Qualifier resolution: \<^verbatim>\<open>toNames\<close>\<close>

text \<open>
  The loop of \<^verbatim>\<open>toNames\<close> over the segments \<^verbatim>\<open>tmp[i]\<close>, with the slice
  \<^verbatim>\<open>out\<close> it appends to.
\<close>

fun toNames_loop :: "string list \<Rightarrow> string list \<Rightarrow> string list" where
  "toNames_loop [] out = out"
| "toNames_loop (x # tmp) out =
     (let t = TrimSpace x in
      if length t = 0 then toNames_loop tmp out
      else if t = ''type'' then toNames_loop tmp (out @ [''''])
      else toNames_loop tmp (out @ [t]))"

definition toNames :: "string \<Rightarrow> string list" where
  "toNames src =
     (if length src = 0 then ['''']
      else toNames_loop (Split (TrimSpace src)) [])"

text \<open>
  The specification's wording of the same function (section 4.3): split the raw input on
  commas, trim each segment, drop the segments that are empty after trimming, read the
  segment \<^verbatim>\<open>type\<close> as the default qualifier and keep every other segment, in order.
\<close>

definition ExpandQualifier_spec :: "string \<Rightarrow> string list" where
  "ExpandQualifier_spec raw =
     (if raw = [] then ['''']
      else map (\<lambda>seg. if seg = ''type'' then '''' else seg)
             (filter (\<lambda>seg. seg \<noteq> '''') (map TrimSpace (Split raw))))"

section \<open>Data model\<close>

text \<open>
  \<^verbatim>\<open>reflect.Type\<close>: the identity of a Go type, the key of the container. Two types are
  the same key exactly when they are the same type; the name is what \<^verbatim>\<open>String()\<close>
  prints.
\<close>

datatype rtype = RType string

text \<open>
  What the container can observe of a Go value held in an \<^verbatim>\<open>interface{}\<close>: whether the
  interface is nil and, when it is not, the kind of the dynamic value, whether that value
  is itself a nil pointer, and whether its type implements \<^verbatim>\<open>error\<close>.
  \<^item> \<open>Nil\<close>: the nil interface value (\<^verbatim>\<open>x == nil\<close>; \<^verbatim>\<open>reflect.ValueOf(x)\<close> is the zero
    Value);
  \<^item> \<open>TypedNil\<close>: a nil pointer, map, slice, channel or function of a type that does not
    implement \<^verbatim>\<open>error\<close>; as an interface value it is not nil;
  \<^item> \<open>NilErr\<close>: a nil pointer of a type that implements \<^verbatim>\<open>error\<close>; as an interface value
    it is not nil, and it is a non-nil \<^verbatim>\<open>error\<close>;
  \<^item> \<open>Inst i\<close>: a non-nil pointer (map, slice, ...) with identity \<open>i\<close>, of a type that does
    not implement \<^verbatim>\<open>error\<close>;
  \<^item> \<open>Err m\<close>: a non-nil pointer of a type that implements \<^verbatim>\<open>error\<close>, with message \<open>m\<close>;
  \<^item> \<open>Scalar i\<close>: a value of a kind that has no nil (int, string, struct...), of a type
    that does not implement \<^verbatim>\<open>error\<close>;
  \<^item> \<open>ScalarErr m\<close>: a value of a kind that has no nil, of a type that implements
    \<^verbatim>\<open>error\<close>, with message \<open>m\<close>.
\<close>

datatype val = Nil | TypedNil | NilErr | Inst nat | Err string | Scalar nat | ScalarErr string

text \<open>
  A \<^verbatim>\<open>reflect.Value\<close> returned by a call: the value it holds and whether the result is
  declared with an interface type (\<^verbatim>\<open>Shape\<close>, \<^verbatim>\<open>error\<close>) or with the type of the value
  itself (\<^verbatim>\<open>*Circle\<close>, \<^verbatim>\<open>int\<close>). Only a result declared with an interface type can hold
  the nil interface; \<open>OfConcrete Nil\<close> is no value of Go and is read as \<open>OfInterface Nil\<close>.
\<close>

datatype rvalue = OfInterface val | OfConcrete val

text \<open>\<^verbatim>\<open>v.Interface()\<close>: the value as an \<^verbatim>\<open>interface{}\<close>.\<close>

fun Interface :: "rvalue \<Rightarrow> val" where
  "Interface (OfInterface v) = v"
| "Interface (OfConcrete v) = v"

text \<open>
  The errors the container returns, one constructor for each message of the source:
  \<^item> \<open>MustBeFunction\<close>: "container: the resolver must be a function"
  \<^item> \<open>AlreadyExists t n\<close>: "container: t binding [n] already exists"
  \<^item> \<open>SignatureInvalid\<close>: "container: resolver function signature is invalid"
  \<^item> \<open>NoBindingFound t\<close>: "container: no binding found for t"
  \<^item> \<open>InvalidFunction\<close>: "container: invalid function"
  \<^item> \<open>ReceiverSignatureInvalid\<close>: "container: receiver function signature is invalid"
  \<^item> \<open>InvalidAbstraction\<close>: "container: invalid abstraction"
  \<^item> \<open>NoConcreteFound t\<close>: "container: no concrete found for: t"
  \<^item> \<open>InvalidStructure\<close>: "container: invalid structure"
  \<^item> \<open>CannotMakeField f t tags\<close>: "container: cannot make f(t) field with tags [tags]"
  \<^item> \<open>Custom m\<close>: an error value with message \<open>m\<close> returned by a resolver or a receiver;
  \<^item> \<open>CustomNil\<close>: an error value returned by a resolver or a receiver that is a nil
    pointer of a type implementing \<^verbatim>\<open>error\<close>.
\<close>

datatype error =
    MustBeFunction
  | AlreadyExists rtype string
  | SignatureInvalid
  | NoBindingFound rtype
  | InvalidFunction
  | ReceiverSignatureInvalid
  | InvalidAbstraction
  | NoConcreteFound rtype
  | InvalidStructure
  | CannotMakeField string rtype string
  | Custom string
  | CustomNil

text \<open>
  The panics:
  \<^item> \<open>PanicNoBinding t\<close>: \<^verbatim>\<open>getBinding\<close>'s own panic, "container: no binding found for t";
  \<^item> \<open>PanicNilType\<close>: a method called on the nil \<^verbatim>\<open>reflect.Type\<close> of a nil interface;
  \<^item> \<open>PanicOutIndex\<close>: \<^verbatim>\<open>Out(0)\<close> of a function type with no results;
  \<^item> \<open>PanicNilMap\<close>: assignment to an entry of a nil map;
  \<^item> \<open>PanicNilPointer\<close>: a field read through a \<^verbatim>\<open>*binding\<close> that points to no binding
    (the container never holds such a pointer);
  \<^item> \<open>PanicZeroValue\<close>: \<^verbatim>\<open>Call\<close> or \<^verbatim>\<open>Set\<close> given the zero \<^verbatim>\<open>reflect.Value\<close>;
  \<^item> \<open>PanicIsNil\<close>: \<^verbatim>\<open>IsNil()\<close> on a value of a kind that has no nil;
  \<^item> \<open>PanicError e\<close>: \<^verbatim>\<open>panic(err)\<close> of \<^verbatim>\<open>LoadOption\<close> and \<^verbatim>\<open>must\<close>.
\<close>

datatype panic =
    PanicNoBinding rtype
  | PanicNilType
  | PanicOutIndex
  | PanicNilMap
  | PanicNilPointer
  | PanicZeroValue
  | PanicIsNil
  | PanicError error

datatype 'a outcome = Return 'a | Panic panic

text \<open>
  Modelled from the spec: the type \<^verbatim>\<open>BindType\<close> and its three constants are declared in
  a file that is not among the sources; the specification names the three lifecycles
  Singleton (eager), LazySingleton and Transient.
\<close>

datatype BindType = singletonType | delaySingletonType | transientType

record Option =
  name :: string
  delay :: bool

text \<open>
  A Go function value as reflection sees it: its parameter types, its result types, and
  the values calling it returns. \<open>body f args tick i\<close> is result number \<open>i\<close> of the call with
  arguments \<open>args\<close>; \<open>tick\<close> is the number of calls made before this one, so that a function
  may return a fresh instance at every call. \<open>fid\<close> names the function in the call log.
  Functions are not variadic; their bodies are total and do not touch the container
  themselves.
\<close>

record func =
  fid :: nat
  ins :: "rtype list"
  outs :: "rtype list"
  body :: "val list \<Rightarrow> nat \<Rightarrow> nat \<Rightarrow> rvalue"

definition NumIn :: "func \<Rightarrow> nat" where
  "NumIn f = length (ins f)"

definition NumOut :: "func \<Rightarrow> nat" where
  "NumOut f = length (outs f)"

definition Out :: "func \<Rightarrow> nat \<Rightarrow> rtype" where
  "Out f i = outs f ! i"

text \<open>\<^verbatim>\<open>reflect.ValueOf(function).Call(arguments)\<close>: as many values as the type has results.\<close>

definition Call_values :: "func \<Rightarrow> val list \<Rightarrow> nat \<Rightarrow> rvalue list" where
  "Call_values f args tick = map (body f args tick) [0..<NumOut f]"

text \<open>
  \<^verbatim>\<open>x.(error)\<close> on an \<^verbatim>\<open>interface{}\<close>: the type assertion succeeds exactly when the
  interface is not nil and the type of the value it holds implements \<^verbatim>\<open>error\<close>, a nil
  pointer of such a type included.
\<close>

fun asError :: "val \<Rightarrow> error option" where
  "asError (Err m) = Some (Custom m)"
| "asError (ScalarErr m) = Some (Custom m)"
| "asError NilErr = Some CustomNil"
| "asError Nil = None"
| "asError TypedNil = None"
| "asError (Inst i) = None"
| "asError (Scalar i) = None"

text \<open>A field of a struct: its name, its type, its \<^verbatim>\<open>container\<close> tag if any, its value.\<close>

record field =
  fname :: string
  ftype :: rtype
  ftag :: "string option"
  fval :: val

text \<open>
  The \<^verbatim>\<open>interface{}\<close> arguments of the API, by what \<^verbatim>\<open>reflect.TypeOf\<close> tells of them:
  the nil interface, a function, a pointer to a slot of some type that is not a struct,
  a pointer to a struct (its type and fields), and every other value. Pointers are not
  nil.
\<close>

datatype any =
    NilValue
  | Function func
  | Pointer rtype
  | StructPointer rtype "field list"
  | Other

record binding =
  bindType :: BindType
  resolver :: func
  concrete :: val

text \<open>
  \<^verbatim>\<open>type Container map[reflect.Type]map[string]*binding\<close>. A \<^verbatim>\<open>*binding\<close> is an address
  in a heap of bindings; \<^verbatim>\<open>&binding{...}\<close> allocates the next address. The world a call
  runs in is the container, the heap and the log of the functions called so far.
\<close>

type_synonym Container = "rtype \<rightharpoonup> (string \<rightharpoonup> nat)"

record world =
  container :: Container
  heap :: "binding list"
  calls :: "nat list"

definition New :: world where
  "New = \<lparr>container = Map.empty, heap = [], calls = []\<rparr>"

section \<open>Options\<close>

definition defaultOption :: Option where
  "defaultOption = \<lparr>name = '''', delay = True\<rparr>"

text \<open>
  \<^verbatim>\<open>type OptionFunc func(*Option) error\<close>: the error it returns and the option as it
  leaves it.
\<close>

type_synonym OptionFunc = "Option \<Rightarrow> error option \<times> Option"

fun LoadOption_loop :: "OptionFunc list \<Rightarrow> Option \<Rightarrow> Option outcome" where
  "LoadOption_loop [] option = Return option"
| "LoadOption_loop (f # opt) option =
     (case f option of
        (Some err, option') \<Rightarrow> Panic (PanicError err)
      | (None, option') \<Rightarrow> LoadOption_loop opt option')"

definition LoadOption :: "OptionFunc list \<Rightarrow> Option outcome" where
  "LoadOption opt = LoadOption_loop opt defaultOption"

section \<open>Lookup, make, invoke, arguments\<close>

text \<open>The loop of \<^verbatim>\<open>getBinding\<close> over \<^verbatim>\<open>names[i]\<close>: the first name the map has.\<close>

fun getBinding_loop :: "(string \<rightharpoonup> nat) \<Rightarrow> string list \<Rightarrow> nat option" where
  "getBinding_loop src [] = None"
| "getBinding_loop src (n # names) =
     (case src n of Some val \<Rightarrow> Some val | None \<Rightarrow> getBinding_loop src names)"

text \<open>
  \<^verbatim>\<open>getBinding\<close> returns \<^verbatim>\<open>(val, true)\<close>, here \<open>Some val\<close>, or \<^verbatim>\<open>(nil, false)\<close>, here
  \<open>None\<close>; it panics when the container has no entry for the type.
\<close>

definition getBinding :: "Container \<Rightarrow> rtype \<Rightarrow> string list \<Rightarrow> nat option outcome" where
  "getBinding c t names =
     (case c t of
        None \<Rightarrow> Panic (PanicNoBinding t)
      | Some src \<Rightarrow> Return (getBinding_loop src names))"

text \<open>
  \<^verbatim>\<open>binding.make\<close>, \<^verbatim>\<open>Container.invoke\<close> and \<^verbatim>\<open>Container.arguments\<close> call each other
  with no bound: a cycle of dependencies recurses until the stack is exhausted. The first
  argument is the depth of calls still available; \<open>None\<close> is the exhausted stack. A Go
  result \<^verbatim>\<open>(value, error)\<close> is the pair of the value and the optional error.
  \<open>arguments\<close> runs the loop over the parameter types that are left.
\<close>

fun make :: "nat \<Rightarrow> nat \<Rightarrow> Option \<Rightarrow> world \<Rightarrow> ((val \<times> error option) outcome \<times> world) option"
and invoke :: "nat \<Rightarrow> func \<Rightarrow> Option \<Rightarrow> world \<Rightarrow> ((val \<times> error option) outcome \<times> world) option"
and arguments :: "nat \<Rightarrow> rtype list \<Rightarrow> Option \<Rightarrow> world \<Rightarrow> ((val list \<times> error option) outcome \<times> world) option"
where
  "make 0 b opt w = None"
| "make (Suc k) b opt w =
     (if length (heap w) \<le> b then Some (Panic PanicNilPointer, w)
      else if concrete (heap w ! b) \<noteq> Nil then Some (Return (concrete (heap w ! b), None), w)
      else if bindType (heap w ! b) = delaySingletonType then
        (case invoke k (resolver (heap w ! b)) opt w of
           None \<Rightarrow> None
         | Some (Panic p, w1) \<Rightarrow> Some (Panic p, w1)
         | Some (Return (v, err), w1) \<Rightarrow>
             (let w2 = w1\<lparr>heap := (heap w1)[b := (heap w1 ! b)\<lparr>concrete := v\<rparr>]\<rparr> in
              case err of
                Some e \<Rightarrow> Some (Return (Nil, Some e), w2)
              | None \<Rightarrow> Some (Return (concrete (heap w2 ! b), None), w2)))
      else invoke k (resolver (heap w ! b)) opt w)"
| "invoke k function opt w =
     (case arguments k (ins function) opt w of
        None \<Rightarrow> None
      | Some (Panic p, w1) \<Rightarrow> Some (Panic p, w1)
      | Some (Return (args, Some err), w1) \<Rightarrow> Some (Return (Nil, Some err), w1)
      | Some (Return (args, None), w1) \<Rightarrow>
          (if Nil \<in> set args then Some (Panic PanicZeroValue, w1)
           else
            (let values = Call_values function args (length (calls w1));
                 w2 = w1\<lparr>calls := calls w1 @ [fid function]\<rparr>
             in
              if length values = 1 \<or> length values = 2 then
                (if length values = 2 then
                   (case asError (Interface (values ! 1)) of
                      Some err \<Rightarrow> Some (Return (Interface (values ! 0), Some err), w2)
                    | None \<Rightarrow> Some (Return (Interface (values ! 0), None), w2))
                 else Some (Return (Interface (values ! 0), None), w2))
              else Some (Return (Nil, Some SignatureInvalid), w2))))"
| "arguments k [] opt w = Some (Return ([], None), w)"
| "arguments k (abstraction # rest) opt w =
     (case getBinding (container w) abstraction (toNames (name opt)) of
        Panic p \<Rightarrow> Some (Panic p, w)
      | Return None \<Rightarrow> Some (Return ([], Some (NoBindingFound abstraction)), w)
      | Return (Some b) \<Rightarrow>
          (case make k b opt w of
             None \<Rightarrow> None
           | Some (Panic p, w1) \<Rightarrow> Some (Panic p, w1)
           | Some (Return (concreteInstance, Some err), w1) \<Rightarrow> Some (Return ([], Some err), w1)
           | Some (Return (concreteInstance, None), w1) \<Rightarrow>
               (case arguments k rest opt w1 of
                  None \<Rightarrow> None
                | Some (Panic p, w2) \<Rightarrow> Some (Panic p, w2)
                | Some (Return (args, Some err), w2) \<Rightarrow> Some (Return ([], Some err), w2)
                | Some (Return (args, None), w2) \<Rightarrow>
                    Some (Return (concreteInstance # args, None), w2))))"

section \<open>Registration\<close>

text \<open>
  The first step of \<^verbatim>\<open>bind\<close> (lines 57 to 61): when the resolver has a result, the
  map of its first result type is created if the container has none.
\<close>

definition bind_entry :: "func \<Rightarrow> world \<Rightarrow> world" where
  "bind_entry f w =
     (if NumOut f > 0 then
        (case container w (Out f 0) of
           None \<Rightarrow> w\<lparr>container := (container w)(Out f 0 \<mapsto> Map.empty)\<rparr>
         | Some m \<Rightarrow> w)
      else w)"

text \<open>
  \<^verbatim>\<open>Container.bind\<close>. The result is the error returned (\<open>None\<close> for \<^verbatim>\<open>nil\<close>). The map
  of the resolver's first result type is created before the resolver is invoked; the
  duplicate check comes after the invocation.
\<close>

definition bind :: "nat \<Rightarrow> any \<Rightarrow> BindType \<Rightarrow> Option \<Rightarrow> world \<Rightarrow> (error option outcome \<times> world) option" where
  "bind k resolver' bindType' opt w =
     (case resolver' of
        NilValue \<Rightarrow> Some (Panic PanicNilType, w)
      | Function f \<Rightarrow>
          (let w0 = bind_entry f w in
            case (if bindType' = singletonType then invoke k f opt w0
                  else Some (Return (Nil, None), w0)) of
              None \<Rightarrow> None
            | Some (Panic p, w1) \<Rightarrow> Some (Panic p, w1)
            | Some (Return (concrete', Some err), w1) \<Rightarrow> Some (Return (Some err), w1)
            | Some (Return (concrete', None), w1) \<Rightarrow>
                (if NumOut f = 0 then Some (Panic PanicOutIndex, w1)
                 else
                  (case container w1 (Out f 0) of
                     None \<Rightarrow> Some (Panic PanicNilMap, w1)
                   | Some m \<Rightarrow>
                       (case m (name opt) of
                          Some b \<Rightarrow>
                            Some (Return (Some (AlreadyExists (Out f 0)
                                    (if name opt = '''' then ''type'' else name opt))), w1)
                        | None \<Rightarrow>
                            Some (Return None,
                              w1\<lparr>container := (container w1)(Out f 0 \<mapsto> m(name opt \<mapsto> length (heap w1))),
                                 heap := heap w1 @
                                   [\<lparr>bindType = bindType', resolver = f, concrete = concrete'\<rparr>]\<rparr>)))))
      | _ \<Rightarrow> Some (Return (Some MustBeFunction), w))"

definition singleton :: "nat \<Rightarrow> any \<Rightarrow> Option \<Rightarrow> world \<Rightarrow> (error option outcome \<times> world) option" where
  "singleton k resolver' opt w =
     (if delay opt then bind k resolver' delaySingletonType opt w
      else bind k resolver' singletonType opt w)"

definition Singleton :: "nat \<Rightarrow> any \<Rightarrow> OptionFunc list \<Rightarrow> world \<Rightarrow> (error option outcome \<times> world) option" where
  "Singleton k resolver' opt w =
     (case LoadOption opt of
        Panic p \<Rightarrow> Some (Panic p, w)
      | Return option \<Rightarrow> singleton k resolver' option w)"

definition NamedSingleton :: "nat \<Rightarrow> string \<Rightarrow> any \<Rightarrow> OptionFunc list \<Rightarrow> world \<Rightarrow> (error option outcome \<times> world) option" where
  "NamedSingleton k n resolver' opt w =
     (case LoadOption opt of
        Panic p \<Rightarrow> Some (Panic p, w)
      | Return option \<Rightarrow> singleton k resolver' (option\<lparr>name := n\<rparr>) w)"

definition transient :: "nat \<Rightarrow> any \<Rightarrow> Option \<Rightarrow> world \<Rightarrow> (error option outcome \<times> world) option" where
  "transient k resolver' opt w = bind k resolver' transientType opt w"

definition Transient :: "nat \<Rightarrow> any \<Rightarrow> OptionFunc list \<Rightarrow> world \<Rightarrow> (error option outcome \<times> world) option" where
  "Transient k resolver' opt w =
     (case LoadOption opt of
        Panic p \<Rightarrow> Some (Panic p, w)
      | Return option \<Rightarrow> transient k resolver' option w)"

section \<open>Call, Resolve, Fill\<close>

text \<open>
  \<^verbatim>\<open>v.IsNil()\<close> on a result. For a result declared with an interface type it tells
  whether the interface is nil (an interface that holds a nil pointer is not nil). For a
  result declared with the type of its value it tells whether the pointer is nil, and it
  panics when the kind has no nil.
\<close>

fun IsNil :: "rvalue \<Rightarrow> bool outcome" where
  "IsNil (OfInterface v) = Return (v = Nil)"
| "IsNil (OfConcrete Nil) = Return True"
| "IsNil (OfConcrete TypedNil) = Return True"
| "IsNil (OfConcrete NilErr) = Return True"
| "IsNil (OfConcrete (Inst i)) = Return False"
| "IsNil (OfConcrete (Err m)) = Return False"
| "IsNil (OfConcrete (Scalar i)) = Panic PanicIsNil"
| "IsNil (OfConcrete (ScalarErr m)) = Panic PanicIsNil"

definition Call :: "nat \<Rightarrow> any \<Rightarrow> OptionFunc list \<Rightarrow> world \<Rightarrow> (error option outcome \<times> world) option" where
  "Call k function opt w =
     (case function of
        Function f \<Rightarrow>
          (case LoadOption opt of
             Panic p \<Rightarrow> Some (Panic p, w)
           | Return option \<Rightarrow>
               (case arguments k (ins f) option w of
                  None \<Rightarrow> None
                | Some (Panic p, w1) \<Rightarrow> Some (Panic p, w1)
                | Some (Return (args, Some err), w1) \<Rightarrow> Some (Return (Some err), w1)
                | Some (Return (args, None), w1) \<Rightarrow>
                    (if Nil \<in> set args then Some (Panic PanicZeroValue, w1)
                     else
                      (let result = Call_values f args (length (calls w1));
                           w2 = w1\<lparr>calls := calls w1 @ [fid f]\<rparr>
                       in
                        if length result = 0 then Some (Return None, w2)
                        else if length result = 1 then
                          (case IsNil (result ! 0) of
                             Panic p \<Rightarrow> Some (Panic p, w2)
                           | Return True \<Rightarrow> Some (Return None, w2)
                           | Return False \<Rightarrow>
                               (case asError (Interface (result ! 0)) of
                                  Some err \<Rightarrow> Some (Return (Some err), w2)
                                | None \<Rightarrow> Some (Return (Some ReceiverSignatureInvalid), w2)))
                        else Some (Return (Some ReceiverSignatureInvalid), w2)))))
      | _ \<Rightarrow> Some (Return (Some InvalidFunction), w))"

text \<open>
  \<^verbatim>\<open>Container.resolve\<close>. The result is the value stored through the pointer, if one was
  stored, and the error returned.
\<close>

definition resolve_elem :: "nat \<Rightarrow> rtype \<Rightarrow> Option \<Rightarrow> world \<Rightarrow> ((val option \<times> error option) outcome \<times> world) option" where
  "resolve_elem k elem opt w =
     (case getBinding (container w) elem (toNames (name opt)) of
        Panic p \<Rightarrow> Some (Panic p, w)
      | Return None \<Rightarrow> Some (Return (None, Some (NoConcreteFound elem)), w)
      | Return (Some b) \<Rightarrow>
          (case make k b opt w of
             None \<Rightarrow> None
           | Some (Panic p, w1) \<Rightarrow> Some (Panic p, w1)
           | Some (Return (instance, Some err), w1) \<Rightarrow> Some (Return (None, Some err), w1)
           | Some (Return (instance, None), w1) \<Rightarrow>
               (if instance = Nil then Some (Panic PanicZeroValue, w1)
                else Some (Return (Some instance, None), w1))))"

definition resolve :: "nat \<Rightarrow> any \<Rightarrow> Option \<Rightarrow> world \<Rightarrow> ((val option \<times> error option) outcome \<times> world) option" where
  "resolve k abstraction opt w =
     (case abstraction of
        NilValue \<Rightarrow> Some (Return (None, Some InvalidAbstraction), w)
      | Pointer elem \<Rightarrow> resolve_elem k elem opt w
      | StructPointer elem flds \<Rightarrow> resolve_elem k elem opt w
      | _ \<Rightarrow> Some (Return (None, Some InvalidAbstraction), w))"

definition Resolve :: "nat \<Rightarrow> any \<Rightarrow> OptionFunc list \<Rightarrow> world \<Rightarrow> ((val option \<times> error option) outcome \<times> world) option" where
  "Resolve k abstraction opt w =
     (case LoadOption opt of
        Panic p \<Rightarrow> Some (Panic p, w)
      | Return option \<Rightarrow> resolve k abstraction option w)"

definition NamedResolve :: "nat \<Rightarrow> string \<Rightarrow> any \<Rightarrow> OptionFunc list \<Rightarrow> world \<Rightarrow> ((val option \<times> error option) outcome \<times> world) option" where
  "NamedResolve k n abstraction opt w =
     (case LoadOption opt of
        Panic p \<Rightarrow> Some (Panic p, w)
      | Return option \<Rightarrow> resolve k abstraction (option\<lparr>name := n\<rparr>) w)"

text \<open>The qualifier candidates of a field of \<^verbatim>\<open>Fill\<close>, from the segments of its tag.\<close>

fun Fill_names_loop :: "string \<Rightarrow> string list \<Rightarrow> string list \<Rightarrow> string list" where
  "Fill_names_loop fieldName [] names = names"
| "Fill_names_loop fieldName (subT # subTs) names =
     (if subT = ''type'' then Fill_names_loop fieldName subTs (names @ [''''])
      else if subT = ''name'' then Fill_names_loop fieldName subTs (names @ [fieldName])
      else Fill_names_loop fieldName subTs (names @ [subT]))"

definition Fill_names :: "string \<Rightarrow> string \<Rightarrow> string list" where
  "Fill_names fieldName t =
     (let subTs = Split t in
      if length subTs = 0 then ['''']
      else Fill_names_loop fieldName subTs [])"

text \<open>
  The loop of \<^verbatim>\<open>Fill\<close> over the fields: \<open>done\<close> are the fields already passed, with the
  values assigned to them, \<open>f # rest\<close> the fields from index \<open>i\<close> on. The result is the
  struct as the call leaves it and the error returned. The error of \<^verbatim>\<open>make\<close> is
  dropped (\<^verbatim>\<open>instance, _ := concrete.make(c, opt)\<close>).
\<close>

fun Fill_loop :: "nat \<Rightarrow> field list \<Rightarrow> field list \<Rightarrow> Option \<Rightarrow> world \<Rightarrow> ((field list \<times> error option) outcome \<times> world) option" where
  "Fill_loop k done [] opt w = Some (Return (done, None), w)"
| "Fill_loop k done (f # rest) opt w =
     (case ftag f of
        None \<Rightarrow> Fill_loop k (done @ [f]) rest opt w
      | Some t \<Rightarrow>
          (let names = Fill_names (fname f) t in
           case getBinding (container w) (ftype f) names of
             Panic p \<Rightarrow> Some (Panic p, w)
           | Return None \<Rightarrow>
               Some (Return (done @ f # rest,
                       Some (CannotMakeField (fname f) (ftype f) (Join names))), w)
           | Return (Some b) \<Rightarrow>
               (case make k b opt w of
                  None \<Rightarrow> None
                | Some (Panic p, w1) \<Rightarrow> Some (Panic p, w1)
                | Some (Return (instance, err), w1) \<Rightarrow>
                    (if instance = Nil then Some (Panic PanicZeroValue, w1)
                     else Fill_loop k (done @ [f\<lparr>fval := instance\<rparr>]) rest opt w1))))"

definition Fill :: "nat \<Rightarrow> any \<Rightarrow> world \<Rightarrow> ((field list \<times> error option) outcome \<times> world) option" where
  "Fill k structure w =
     (case structure of
        StructPointer elem flds \<Rightarrow> Fill_loop k [] flds defaultOption w
      | _ \<Rightarrow> Some (Return ([], Some InvalidStructure), w))"

text \<open>\<^verbatim>\<open>Container.Reset\<close>: every key is deleted.\<close>

definition Reset :: "world \<Rightarrow> world" where
  "Reset w = w\<lparr>container := Map.empty\<rparr>"

section \<open>What a resolution leaves unchanged\<close>

text \<open>
  \<open>frame w w'\<close>: from \<open>w\<close> to \<open>w'\<close> the container is the same, no binding was allocated, the
  call log only grew, every binding kept its lifecycle and its resolver, and the only
  caches written are those of LazySingleton bindings that were empty.
\<close>

definition frame :: "world \<Rightarrow> world \<Rightarrow> bool" where
  "frame w w' \<longleftrightarrow>
     container w' = container w \<and> length (heap w') = length (heap w) \<and>
     take (length (calls w)) (calls w') = calls w \<and>
     (\<forall>b < length (heap w).
        bindType (heap w' ! b) = bindType (heap w ! b) \<and>
        resolver (heap w' ! b) = resolver (heap w ! b) \<and>
        (bindType (heap w ! b) \<noteq> delaySingletonType \<or> concrete (heap w ! b) \<noteq> Nil
           \<longrightarrow> concrete (heap w' ! b) = concrete (heap w ! b)))"

text \<open>The binding registered for a type under a qualifier, if there is one.\<close>

definition bindingAt :: "Container \<Rightarrow> rtype \<Rightarrow> string \<Rightarrow> nat option" where
  "bindingAt c t n = (case c t of None \<Rightarrow> None | Some m \<Rightarrow> m n)"

text \<open>The assignment \<^verbatim>\<open>b.concrete = v\<close> of \<^verbatim>\<open>make\<close>, on the heap.\<close>

definition cached :: "nat \<Rightarrow> val \<Rightarrow> world \<Rightarrow> world" where
  "cached b v w = w\<lparr>heap := (heap w)[b := (heap w ! b)\<lparr>concrete := v\<rparr>]\<rparr>"

section \<open>Example types, functions and structs\<close>

definition Shape :: rtype where
  "Shape = RType ''Shape''"

text \<open>\<^verbatim>\<open>func(s Shape) {}\<close>\<close>

definition needsShape :: func where
  "needsShape = \<lparr>fid = 7, ins = [Shape], outs = [], body = (\<lambda>args tick i. OfInterface Nil)\<rparr>"

text \<open>The field \<^verbatim>\<open>S Shape `container:"type"`\<close> of a struct.\<close>

definition shapeField :: field where
  "shapeField = \<lparr>fname = ''S'', ftype = Shape, ftag = Some ''type'', fval = Nil\<rparr>"

text \<open>\<^verbatim>\<open>func() Shape { return &Circle{} }\<close>: a fresh instance at every call.\<close>

definition newShape :: func where
  "newShape = \<lparr>fid = 1, ins = [], outs = [Shape],
     body = (\<lambda>args tick i. OfInterface (Inst tick))\<rparr>"

text \<open>\<^verbatim>\<open>func() (Shape, error) { return &Circle{}, errors.New("boom") }\<close>\<close>

definition failingShape :: func where
  "failingShape = \<lparr>fid = 2, ins = [], outs = [Shape, RType ''error''],
     body = (\<lambda>args tick i. if i = 0 then OfInterface (Inst tick) else OfInterface (Err ''boom''))\<rparr>"

text \<open>\<^verbatim>\<open>func() (Shape, int, string) { ... }\<close>: three results.\<close>

definition threeResults :: func where
  "threeResults = \<lparr>fid = 3, ins = [], outs = [Shape, RType ''int'', RType ''string''],
     body = (\<lambda>args tick i. if i = 0 then OfInterface (Inst tick) else OfConcrete (Scalar i))\<rparr>"

text \<open>
  A container that holds one LazySingleton binding, of \<open>newShape\<close>, for \<open>Shape\<close> under the
  default qualifier.
\<close>

definition oneShape :: world where
  "oneShape =
     \<lparr>container = [Shape \<mapsto> ['''' \<mapsto> 0]],
      heap = [\<lparr>bindType = delaySingletonType, resolver = newShape, concrete = Nil\<rparr>],
      calls = []\<rparr>"

definition Database :: rtype where
  "Database = RType ''Database''"

text \<open>\<^verbatim>\<open>func() Database { ... }\<close>\<close>

definition newDatabase :: func where
  "newDatabase = \<lparr>fid = 4, ins = [], outs = [Database],
     body = (\<lambda>args tick i. OfInterface (Inst tick))\<rparr>"

text \<open>The field \<^verbatim>\<open>Db Database `container:"replica,name"`\<close> of a struct.\<close>

definition dbField :: field where
  "dbField = \<lparr>fname = ''Db'', ftype = Database, ftag = Some ''replica,name'', fval = Nil\<rparr>"

text \<open>A field without a \<^verbatim>\<open>container\<close> tag.\<close>

definition plainField :: field where
  "plainField = \<lparr>fname = ''Title'', ftype = RType ''string'', ftag = None, fval = Scalar 0\<rparr>"

text \<open>
  A container with a LazySingleton \<open>Shape\<close> under the default qualifier and a Transient
  \<open>Database\<close> under the qualifier \<^verbatim>\<open>primary\<close>.
\<close>

definition shapeAndDb :: world where
  "shapeAndDb =
     \<lparr>container = [Shape \<mapsto> ['''' \<mapsto> 0], Database \<mapsto> [''primary'' \<mapsto> 1]],
      heap = [\<lparr>bindType = delaySingletonType, resolver = newShape, concrete = Nil\<rparr>,
              \<lparr>bindType = transientType, resolver = newDatabase, concrete = Nil\<rparr>],
      calls = []\<rparr>"

text \<open>
  Containers whose only binding, for \<open>Shape\<close> under the default qualifier, has a
  resolver that returns an instance together with an error.
\<close>

definition failingTransient :: world where
  "failingTransient =
     \<lparr>container = [Shape \<mapsto> ['''' \<mapsto> 0]],
      heap = [\<lparr>bindType = transientType, resolver = failingShape, concrete = Nil\<rparr>],
      calls = []\<rparr>"

definition failingLazy :: world where
  "failingLazy =
     \<lparr>container = [Shape \<mapsto> ['''' \<mapsto> 0]],
      heap = [\<lparr>bindType = delaySingletonType, resolver = failingShape, concrete = Nil\<rparr>],
      calls = []\<rparr>"

text \<open>
  \<^verbatim>\<open>func() Shape\<close> that returns the nil interface at the very first call of the program
  and a fresh instance afterwards.
\<close>

definition nilThenShape :: func where
  "nilThenShape = \<lparr>fid = 5, ins = [], outs = [Shape],
     body = (\<lambda>args tick i. if tick = 0 then OfInterface Nil else OfInterface (Inst tick))\<rparr>"

definition lazyNil :: world where
  "lazyNil =
     \<lparr>container = [Shape \<mapsto> ['''' \<mapsto> 0]],
      heap = [\<lparr>bindType = delaySingletonType, resolver = nilThenShape, concrete = Nil\<rparr>],
      calls = []\<rparr>"

text \<open>\<^verbatim>\<open>func(s Shape) Database\<close>: a resolver with a dependency.\<close>

definition dbOfShape :: func where
  "dbOfShape = \<lparr>fid = 6, ins = [Shape], outs = [Database],
     body = (\<lambda>args tick i. OfInterface (Inst tick))\<rparr>"

text \<open>
  A container with a Transient \<open>Shape\<close>, a LazySingleton \<open>Database\<close> that depends on a
  \<open>Shape\<close>, and an eager Singleton of type \<^verbatim>\<open>Logger\<close> whose instance was made at
  registration.
\<close>

definition threeKinds :: world where
  "threeKinds =
     \<lparr>container = [Shape \<mapsto> ['''' \<mapsto> 0], Database \<mapsto> ['''' \<mapsto> 1],
                   RType ''Logger'' \<mapsto> ['''' \<mapsto> 2]],
      heap = [\<lparr>bindType = transientType, resolver = newShape, concrete = Nil\<rparr>,
              \<lparr>bindType = delaySingletonType, resolver = dbOfShape, concrete = Nil\<rparr>,
              \<lparr>bindType = singletonType, resolver = newShape, concrete = Inst 0\<rparr>],
      calls = [1]\<rparr>"


text \<open>\<^verbatim>\<open>func() (Shape, error) { return nil, errors.New("boom") }\<close>\<close>

definition noShape :: func where
  "noShape = \<lparr>fid = 9, ins = [], outs = [Shape, RType ''error''],
     body = (\<lambda>args tick i. if i = 0 then OfInterface Nil else OfInterface (Err ''boom''))\<rparr>"

text \<open>A container whose only binding is a LazySingleton of \<open>noShape\<close>.\<close>

definition lazyNoShape :: world where
  "lazyNoShape =
     \<lparr>container = [Shape \<mapsto> ['''' \<mapsto> 0]],
      heap = [\<lparr>bindType = delaySingletonType, resolver = noShape, concrete = Nil\<rparr>],
      calls = []\<rparr>"

text \<open>A container whose only binding is a LazySingleton of \<open>threeResults\<close>.\<close>

definition lazyThree :: world where
  "lazyThree =
     \<lparr>container = [Shape \<mapsto> ['''' \<mapsto> 0]],
      heap = [\<lparr>bindType = delaySingletonType, resolver = threeResults, concrete = Nil\<rparr>],
      calls = []\<rparr>"

section \<open>Properties of the string functions\<close>

lemma Split_not_Nil: "Split s \<noteq> []"
  by (induction s) auto

lemma comma_not_space: "\<not> isSpace (CHR '','')"
  by (simp add: isSpace_def)

lemma TrimSpace_Cons_space: "isSpace c \<Longrightarrow> TrimSpace (c # s) = TrimSpace s"
  by (simp add: TrimSpace_def)

lemma Split_Cons_space:
  assumes "isSpace c"
  shows "Split (c # cs) = (c # hd (Split cs)) # tl (Split cs)"
proof -
  from assms have "c \<noteq> CHR '',''" using comma_not_space by auto
  then show ?thesis by simp
qed

lemma map_Trim_Split_dropWhile:
  "map TrimSpace (Split (dropWhile isSpace s)) = map TrimSpace (Split s)"
proof (induction s)
  case Nil
  show ?case by simp
next
  case (Cons c cs)
  show ?case
  proof (cases "isSpace c")
    case True
    obtain x xs where sp: "Split cs = x # xs"
      using Split_not_Nil [of cs] by (cases "Split cs") auto
    have "map TrimSpace (Split (c # cs)) = TrimSpace x # map TrimSpace xs"
      using True sp by (simp add: Split_Cons_space TrimSpace_Cons_space del: Split.simps)
    also have "\<dots> = map TrimSpace (Split cs)" using sp by simp
    finally show ?thesis using True Cons.IH by simp
  next
    case False
    then show ?thesis by simp
  qed
qed

lemma Split_snoc:
  "Split (s @ [c]) =
     (if c = CHR '','' then Split s @ [[]]
      else butlast (Split s) @ [last (Split s) @ [c]])"
proof (induction s)
  case Nil
  show ?case by simp
next
  case (Cons d ds)
  obtain x xs where sp: "Split ds = x # xs"
    using Split_not_Nil [of ds] by (cases "Split ds") auto
  show ?case
  proof (cases "c = CHR '',''")
    case True
    then show ?thesis using Cons.IH sp by (cases "Split (ds @ [c])") auto
  next
    case False
    then show ?thesis using Cons.IH sp by (cases xs rule: rev_cases) auto
  qed
qed

lemma Split_rev: "Split (rev s) = rev (map rev (Split s))"
proof (induction s)
  case Nil
  show ?case by simp
next
  case (Cons c cs)
  obtain x xs where sp: "Split cs = x # xs"
    using Split_not_Nil [of cs] by (cases "Split cs") auto
  show ?case using Cons.IH sp
    by (simp add: Split_snoc rev_map butlast_append last_append)
qed

lemma dropWhile_both_ends:
  "dropWhile P (rev (dropWhile P xs)) = rev (dropWhile P (rev (dropWhile P (rev xs))))"
proof (induction xs)
  case Nil
  show ?case by simp
next
  case (Cons a as)
  show ?case
  proof (cases "P a")
    case True
    show ?thesis
    proof (cases "\<forall>y\<in>set as. P y")
      case all: True
      then have e: "dropWhile P as = []" "dropWhile P (rev as) = []" by auto
      show ?thesis using True all by (simp add: dropWhile_append e)
    next
      case False
      then have ne: "dropWhile P (rev as) \<noteq> []" by auto
      from False have nall: "\<not> (\<forall>y\<in>set as. P y)" by simp
      show ?thesis using True Cons.IH ne nall by (auto simp add: dropWhile_append)
    qed
  next
    case False
    then show ?thesis by (simp add: dropWhile_append3 dropWhile_append)
  qed
qed

lemma TrimSpace_rev: "TrimSpace (rev s) = rev (TrimSpace s)"
  by (simp add: TrimSpace_def dropWhile_both_ends [symmetric])

lemma map_Trim_Split_TrimSpace:
  "map TrimSpace (Split (TrimSpace s)) = map TrimSpace (Split s)"
proof -
  let ?d = "dropWhile isSpace"
  have "map TrimSpace (Split (TrimSpace s)) = map TrimSpace (Split (rev (?d (rev (?d s)))))"
    by (simp add: TrimSpace_def)
  also have "\<dots> = rev (map rev (map TrimSpace (Split (?d (rev (?d s))))))"
    by (simp add: Split_rev rev_map TrimSpace_rev comp_def)
  also have "\<dots> = rev (map rev (map TrimSpace (Split (rev (?d s)))))"
    by (simp only: map_Trim_Split_dropWhile)
  also have "\<dots> = map TrimSpace (Split (?d s))"
    by (simp add: Split_rev rev_map TrimSpace_rev comp_def)
  also have "\<dots> = map TrimSpace (Split s)"
    by (rule map_Trim_Split_dropWhile)
  finally show ?thesis .
qed

lemma toNames_loop_eq:
  "toNames_loop tmp out =
     out @ map (\<lambda>seg. if seg = ''type'' then '''' else seg)
             (filter (\<lambda>seg. seg \<noteq> '''') (map TrimSpace tmp))"
  by (induction tmp arbitrary: out) (simp_all add: Let_def)

section \<open>Properties of the resolution engine\<close>

declare make.simps [simp del] invoke.simps [simp del] arguments.simps [simp del]

lemma take_is_prefix: "take (length xs) ys = xs \<longleftrightarrow> (\<exists>zs. ys = xs @ zs)"
proof
  assume "take (length xs) ys = xs"
  then have "ys = xs @ drop (length xs) ys"
    using append_take_drop_id [of "length xs" ys] by simp
  then show "\<exists>zs. ys = xs @ zs" ..
next
  assume "\<exists>zs. ys = xs @ zs"
  then show "take (length xs) ys = xs" by auto
qed

lemma frame_refl: "frame w w"
  by (simp add: frame_def)

lemma frame_trans: "frame w w1 \<Longrightarrow> frame w1 w2 \<Longrightarrow> frame w w2"
  unfolding frame_def take_is_prefix by (auto; metis)

lemma frame_calls: "frame w (w\<lparr>calls := calls w @ xs\<rparr>)"
  by (simp add: frame_def)

lemma frame_cache:
  assumes "b < length (heap w)" "concrete (heap w ! b) = Nil"
    and "bindType (heap w ! b) = delaySingletonType" and "frame w w1"
  shows "frame w (w1\<lparr>heap := (heap w1)[b := (heap w1 ! b)\<lparr>concrete := v\<rparr>]\<rparr>)"
  using assms unfolding frame_def by (auto simp: nth_list_update)

lemma frame_engine:
  "(\<forall>r w'. make k b opt w = Some (r, w') \<longrightarrow> frame w w')"
  "(\<forall>r w'. invoke k f opt w = Some (r, w') \<longrightarrow> frame w w')"
  "(\<forall>r w'. arguments k ts opt w = Some (r, w') \<longrightarrow> frame w w')"
proof (induct k b opt w and k f opt w and k ts opt w rule: make_invoke_arguments.induct)
  case (1 b opt w)
  show ?case by (simp add: make.simps)
next
  case (2 k b opt w)
  then show ?case
    by (auto simp: make.simps frame_refl Let_def
        split: if_splits option.splits prod.splits outcome.splits intro: frame_cache)
next
  case (3 k fn opt w)
  then show ?case
    by (auto simp: invoke.simps Let_def split: if_splits option.splits prod.splits outcome.splits
         intro: frame_trans [OF _ frame_calls])
next
  case (4 k opt w)
  show ?case by (simp add: arguments.simps frame_refl)
next
  case (5 k abstraction rest opt w)
  show ?case
  proof (intro allI impI)
    fix r w'
    assume run0: "arguments k (abstraction # rest) opt w = Some (r, w')"
    note run = run0 [unfolded arguments.simps]
    show "frame w w'"
    proof (cases "getBinding (container w) abstraction (toNames (name opt))")
      case (Panic p)
      with run show ?thesis by (simp add: frame_refl)
    next
      case (Return x1)
      show ?thesis
      proof (cases x1)
        case None
        with run Return show ?thesis by (simp add: frame_refl)
      next
        case (Some x2)
        from run Return Some obtain r1 w1 where mk: "make k x2 opt w = Some (r1, w1)"
          by (auto split: option.splits)
        from 5(1) [OF Return Some] mk have f1: "frame w w1" by blast
        show ?thesis
        proof (cases r1)
          case (Panic p)
          with run Return Some mk f1 show ?thesis by simp
        next
          case R1: (Return x1a)
          obtain v e where x1a: "x1a = (v, e)" by (cases x1a)
          show ?thesis
          proof (cases e)
            case (Some err)
            with run Return \<open>x1 = Some x2\<close> mk f1 R1 x1a show ?thesis by simp
          next
            case None
            from run Return \<open>x1 = Some x2\<close> mk R1 x1a None
            obtain r2 w2 where ar: "arguments k rest opt w1 = Some (r2, w2)"
              by (auto split: option.splits)
            from 5(2) [OF Return \<open>x1 = Some x2\<close> mk _ R1 _ None, of w1 v] x1a ar
            have f2: "frame w1 w2" by auto
            from run Return \<open>x1 = Some x2\<close> mk R1 x1a None ar have "w' = w2"
              by (auto split: outcome.splits prod.splits option.splits)
            with f1 f2 show ?thesis by (auto intro: frame_trans)
          qed
        qed
      qed
    qed
  qed
qed

lemma make_frame: "make k b opt w = Some (r, w') \<Longrightarrow> frame w w'"
  using frame_engine(1) by blast

lemma invoke_frame: "invoke k f opt w = Some (r, w') \<Longrightarrow> frame w w'"
  using frame_engine(2) by blast

lemma arguments_frame: "arguments k ts opt w = Some (r, w') \<Longrightarrow> frame w w'"
  using frame_engine(3) by blast

lemma IsNil_of_nil_pointer:
  "IsNil (OfInterface NilErr) = Return False \<and> IsNil (OfConcrete NilErr) = Return True \<and>
   IsNil (OfInterface Nil) = Return True \<and>
   asError (Interface (OfInterface NilErr)) = Some CustomNil \<and>
   asError (Interface (OfInterface Nil)) = None"
  by simp

section \<open>Claims\<close>

text \<open>
  C1 (as amended). When the requested type has no entry at all in the container,
  \<^verbatim>\<open>getBinding\<close> panics with "container: no binding found for t", and so do the
  operations that reach that lookup: \<^verbatim>\<open>Resolve\<close> on a pointer to that type, the
  argument resolution of \<^verbatim>\<open>invoke\<close> and \<^verbatim>\<open>Call\<close> on a function whose first parameter
  has that type, and \<^verbatim>\<open>Fill\<close> on a struct whose first field is annotated and has that
  type. No error is returned, and the world is left as it was.
\<close>

theorem C1_absent_type_panics:
  assumes "container w t = None"
    and "ins f = t # rest"
    and "ftype fl = t" and "ftag fl = Some tag"
  shows "getBinding (container w) t names = Panic (PanicNoBinding t) \<and>
         resolve k (Pointer t) opt w = Some (Panic (PanicNoBinding t), w) \<and>
         Resolve k (Pointer t) [] w = Some (Panic (PanicNoBinding t), w) \<and>
         arguments k (t # rest) opt w = Some (Panic (PanicNoBinding t), w) \<and>
         invoke k f opt w = Some (Panic (PanicNoBinding t), w) \<and>
         Call k (Function f) [] w = Some (Panic (PanicNoBinding t), w) \<and>
         Fill k (StructPointer s (fl # fls)) w = Some (Panic (PanicNoBinding t), w)"
proof -
  have g: "\<And>names. getBinding (container w) t names = Panic (PanicNoBinding t)"
    using assms(1) by (simp add: getBinding_def)
  have a: "\<And>opt. arguments k (t # rest) opt w = Some (Panic (PanicNoBinding t), w)"
    by (simp add: arguments.simps g)
  show ?thesis
    using assms(2-)
    by (simp add: g a resolve_def resolve_elem_def Resolve_def LoadOption_def invoke.simps
        Call_def Fill_def)
qed

text \<open>
  C1, as stated, fails: on the empty container \<^verbatim>\<open>Resolve\<close> of a \<^verbatim>\<open>*Shape\<close> does not
  return an error, it panics.
\<close>

theorem C1_counterexample:
  "container New Shape = None \<and>
   Resolve 1 (Pointer Shape) [] New = Some (Panic (PanicNoBinding Shape), New)"
  by (simp add: New_def Resolve_def LoadOption_def resolve_def resolve_elem_def getBinding_def)

theorem C1_witness:
  "container New Shape = None \<and>
   ins needsShape = [Shape] \<and> ftype shapeField = Shape \<and> ftag shapeField = Some ''type'' \<and>
   getBinding (container New) Shape [''''] = Panic (PanicNoBinding Shape) \<and>
   Resolve 1 (Pointer Shape) [] New = Some (Panic (PanicNoBinding Shape), New) \<and>
   Call 1 (Function needsShape) [] New = Some (Panic (PanicNoBinding Shape), New) \<and>
   Fill 1 (StructPointer (RType ''Canvas'') [shapeField]) New =
     Some (Panic (PanicNoBinding Shape), New)"
proof -
  have h: "container New Shape = None" by (simp add: New_def)
  have n: "ins needsShape = Shape # []" by (simp add: needsShape_def)
  have s: "ftype shapeField = Shape" "ftag shapeField = Some ''type''"
    by (simp_all add: shapeField_def)
  from C1_absent_type_panics [OF h n s, where names = "['''']" and k = 1 and fls = "[]"]
  show ?thesis using h n s by simp
qed

text \<open>
  C2 (as amended). Registering a resolver for a (type, qualifier) pair that already has a
  binding never succeeds and never replaces that binding: the container maps every pair
  to the binding it mapped it to, no binding is allocated, and every binding keeps its
  resolver and lifecycle. For a LazySingleton or Transient registration the error is
  "binding already exists" and nothing at all changes. For an eager Singleton
  registration the resolver is invoked before the duplicate check, so the error is
  "binding already exists" only when that invocation returns no error; otherwise the
  invocation's own error is returned.
\<close>

theorem C2_duplicate_rejected:
  assumes "0 < NumOut f"
    and "container w (Out f 0) = Some m"
    and "m (name opt) = Some b"
  shows "(bt \<noteq> singletonType \<longrightarrow>
            bind k (Function f) bt opt w =
              Some (Return (Some (AlreadyExists (Out f 0)
                      (if name opt = '''' then ''type'' else name opt))), w)) \<and>
         (\<forall>res w'. bind k (Function f) bt opt w = Some (res, w') \<longrightarrow>
            res \<noteq> Return None \<and> frame w w') \<and>
         (\<forall>v w1. invoke k f opt w = Some (Return (v, None), w1) \<longrightarrow>
            bind k (Function f) singletonType opt w =
              Some (Return (Some (AlreadyExists (Out f 0)
                      (if name opt = '''' then ''type'' else name opt))), w1)) \<and>
         (\<forall>v e w1. invoke k f opt w = Some (Return (v, Some e), w1) \<longrightarrow>
            bind k (Function f) singletonType opt w = Some (Return (Some e), w1))"
proof -
  have be: "bind_entry f w = w"
    using assms by (simp add: bind_entry_def)
  have lazy: "bt \<noteq> singletonType \<Longrightarrow>
      bind k (Function f) bt opt w =
        Some (Return (Some (AlreadyExists (Out f 0)
                (if name opt = '''' then ''type'' else name opt))), w)"
    using assms by (simp add: bind_def be)
  have ok: "\<And>v w1. invoke k f opt w = Some (Return (v, None), w1) \<Longrightarrow>
      bind k (Function f) singletonType opt w =
        Some (Return (Some (AlreadyExists (Out f 0)
                (if name opt = '''' then ''type'' else name opt))), w1)"
  proof -
    fix v w1
    assume i: "invoke k f opt w = Some (Return (v, None), w1)"
    then have "container w1 = container w" by (auto dest: invoke_frame simp: frame_def)
    with i assms show "bind k (Function f) singletonType opt w =
        Some (Return (Some (AlreadyExists (Out f 0)
                (if name opt = '''' then ''type'' else name opt))), w1)"
      by (simp add: bind_def be)
  qed
  have err: "\<And>v e w1. invoke k f opt w = Some (Return (v, Some e), w1) \<Longrightarrow>
      bind k (Function f) singletonType opt w = Some (Return (Some e), w1)"
    by (simp add: bind_def be)
  have never: "\<And>res w'. bind k (Function f) bt opt w = Some (res, w') \<Longrightarrow>
      res \<noteq> Return None \<and> frame w w'"
  proof -
    fix res w'
    assume run: "bind k (Function f) bt opt w = Some (res, w')"
    show "res \<noteq> Return None \<and> frame w w'"
    proof (cases "bt = singletonType")
      case False
      with lazy run show ?thesis by (auto simp: frame_refl)
    next
      case True
      from run True obtain r1 w1 where i: "invoke k f opt w = Some (r1, w1)"
        by (auto simp: bind_def be split: option.splits)
      then have fr: "frame w w1" by (rule invoke_frame)
      show ?thesis
      proof (cases r1)
        case (Panic p)
        with run True i fr show ?thesis by (auto simp: bind_def be)
      next
        case (Return x)
        obtain v e where x: "x = (v, e)" by (cases x)
        show ?thesis
        proof (cases e)
          case None
          with ok [of v w1] i Return x run True fr show ?thesis by auto
        next
          case (Some e')
          with err [of v e' w1] i Return x run True fr show ?thesis by auto
        qed
      qed
    qed
  qed
  show ?thesis using lazy ok err never by blast
qed

text \<open>
  C2, as stated, fails: the eager Singleton registration of a second resolver for
  \<open>Shape\<close> under the default qualifier returns the resolver's own error, not
  "binding already exists".
\<close>

theorem C2_counterexample:
  "container oneShape (Out failingShape 0) = Some ['''' \<mapsto> 0] \<and>
   name defaultOption = '''' \<and>
   bind 0 (Function failingShape) singletonType defaultOption oneShape =
     Some (Return (Some (Custom ''boom'')), oneShape\<lparr>calls := [2]\<rparr>)"
  by (simp add: bind_def bind_entry_def NumOut_def Out_def failingShape_def oneShape_def
      defaultOption_def invoke.simps arguments.simps Call_values_def upt_rec)

theorem C2_witness:
  "0 < NumOut newShape \<and>
   container oneShape (Out newShape 0) = Some ['''' \<mapsto> 0] \<and>
   (['''' \<mapsto> 0::nat]) (name defaultOption) = Some 0 \<and>
   bind 0 (Function newShape) transientType defaultOption oneShape =
     Some (Return (Some (AlreadyExists Shape ''type'')), oneShape) \<and>
   invoke 0 newShape defaultOption oneShape = Some (Return (Inst 0, None), oneShape\<lparr>calls := [1]\<rparr>) \<and>
   bind 0 (Function newShape) singletonType defaultOption oneShape =
     Some (Return (Some (AlreadyExists Shape ''type'')), oneShape\<lparr>calls := [1]\<rparr>)"
proof -
  have n: "0 < NumOut newShape" by (simp add: NumOut_def newShape_def)
  have o: "Out newShape 0 = Shape" by (simp add: Out_def newShape_def)
  have c: "container oneShape (Out newShape 0) = Some ['''' \<mapsto> 0]"
    by (simp add: o oneShape_def)
  have m: "(['''' \<mapsto> 0::nat]) (name defaultOption) = Some 0"
    by (simp add: defaultOption_def)
  have i: "invoke 0 newShape defaultOption oneShape =
      Some (Return (Inst 0, None), oneShape\<lparr>calls := [1]\<rparr>)"
    by (simp add: invoke.simps arguments.simps newShape_def oneShape_def Call_values_def
        NumOut_def upt_rec)
  have d: "name defaultOption = ''''" by (simp add: defaultOption_def)
  note t1 = C2_duplicate_rejected [OF n c m, of transientType 0]
  note t2 = C2_duplicate_rejected [OF n c m, of singletonType 0]
  have b1: "bind 0 (Function newShape) transientType defaultOption oneShape =
     Some (Return (Some (AlreadyExists Shape ''type'')), oneShape)"
    using t1 by (simp add: o d)
  have b2: "bind 0 (Function newShape) singletonType defaultOption oneShape =
     Some (Return (Some (AlreadyExists Shape ''type'')), oneShape\<lparr>calls := [1]\<rparr>)"
    using t2 i by (simp add: o d)
  show ?thesis using n c m b1 i b2 by simp
qed

lemma make_cached:
  assumes "b < length (heap w)" and "concrete (heap w ! b) \<noteq> Nil"
  shows "make (Suc k) b opt w = Some (Return (concrete (heap w ! b), None), w)"
  using assms by (simp add: make.simps)

lemma make_lazy:
  assumes "b < length (heap w)" and "concrete (heap w ! b) = Nil"
    and "bindType (heap w ! b) = delaySingletonType"
    and "invoke k (resolver (heap w ! b)) opt w = Some (Return (v, err), w1)"
  shows "make (Suc k) b opt w =
           Some (Return (case err of None \<Rightarrow> v | Some e \<Rightarrow> Nil, err), cached b v w1)"
    and "b < length (heap (cached b v w1))"
    and "concrete (heap (cached b v w1) ! b) = v"
    and "bindType (heap (cached b v w1) ! b) = delaySingletonType"
    and "resolver (heap (cached b v w1) ! b) = resolver (heap w ! b)"
proof -
  from assms(4) have fr: "frame w w1" by (rule invoke_frame)
  then have len: "length (heap w1) = length (heap w)" by (simp add: frame_def)
  with assms(1) show l: "b < length (heap (cached b v w1))" by (simp add: cached_def)
  from len assms(1) show c: "concrete (heap (cached b v w1) ! b) = v" by (simp add: cached_def)
  from fr len assms(1,3) show "bindType (heap (cached b v w1) ! b) = delaySingletonType"
    by (simp add: cached_def frame_def)
  from fr len assms(1) show "resolver (heap (cached b v w1) ! b) = resolver (heap w ! b)"
    by (simp add: cached_def frame_def)
  show "make (Suc k) b opt w =
           Some (Return (case err of None \<Rightarrow> v | Some e \<Rightarrow> Nil, err), cached b v w1)"
    using assms c by (cases err) (simp_all add: make.simps Let_def cached_def)
qed

lemma invoke_arguments_fail:
  assumes "arguments k (ins f) opt w = Some (Return (args, Some e), w1)"
  shows "invoke k f opt w = Some (Return (Nil, Some e), w1)"
  using assms by (simp add: invoke.simps)

text \<open>
  C3 (as amended). For a binding \<open>b\<close> of the heap:
  \<^item> when its cache holds an instance (is not nil), \<^verbatim>\<open>make\<close> returns that instance and
    changes nothing;
  \<^item> when it is a LazySingleton with an empty cache and the invocation of its resolver
    returns \<open>v\<close> without error, \<^verbatim>\<open>make\<close> stores \<open>v\<close> in the cache and returns it; if \<open>v\<close>
    is not nil, every later \<^verbatim>\<open>make\<close> returns \<open>v\<close> again without invoking anything;
  \<^item> when it is a LazySingleton with an empty cache and the invocation of its resolver
    fails, \<^verbatim>\<open>make\<close> returns the failure and no value; when the invocation yields no
    value with the failure (the resolution of the arguments failed, the number of
    results is invalid, or the resolver returned nil with its error), the cache stays
    empty and the binding is still a LazySingleton with the same resolver, so that a
    later \<^verbatim>\<open>make\<close> invokes the resolver again;
  \<^item> when it is a Transient binding (with the empty cache \<^verbatim>\<open>bind\<close> gives it), \<^verbatim>\<open>make\<close>
    is the invocation of its resolver, and afterwards the binding is still Transient with
    an empty cache, so that every later \<^verbatim>\<open>make\<close> invokes the resolver again.
\<close>

theorem C3_make_lifecycles:
  assumes "b < length (heap w)"
  shows "(concrete (heap w ! b) \<noteq> Nil \<longrightarrow>
            make (Suc k) b opt w = Some (Return (concrete (heap w ! b), None), w)) \<and>
         (concrete (heap w ! b) = Nil \<and> bindType (heap w ! b) = delaySingletonType \<and>
          invoke k (resolver (heap w ! b)) opt w = Some (Return (v, None), w1) \<longrightarrow>
            make (Suc k) b opt w = Some (Return (v, None), cached b v w1) \<and>
            concrete (heap (cached b v w1) ! b) = v \<and>
            (v \<noteq> Nil \<longrightarrow>
               (\<forall>k' opt'. make (Suc k') b opt' (cached b v w1) =
                              Some (Return (v, None), cached b v w1)))) \<and>
         (concrete (heap w ! b) = Nil \<and> bindType (heap w ! b) = delaySingletonType \<and>
          invoke k (resolver (heap w ! b)) opt w = Some (Return (u, Some e), w2) \<longrightarrow>
            (\<exists>w'. make (Suc k) b opt w = Some (Return (Nil, Some e), w')) \<and>
            (u = Nil \<longrightarrow>
               make (Suc k) b opt w = Some (Return (Nil, Some e), cached b Nil w2) \<and>
               b < length (heap (cached b Nil w2)) \<and>
               concrete (heap (cached b Nil w2) ! b) = Nil \<and>
               bindType (heap (cached b Nil w2) ! b) = delaySingletonType \<and>
               resolver (heap (cached b Nil w2) ! b) = resolver (heap w ! b))) \<and>
         (arguments k (ins (resolver (heap w ! b))) opt w = Some (Return (args, Some e'), w3) \<longrightarrow>
            invoke k (resolver (heap w ! b)) opt w = Some (Return (Nil, Some e'), w3)) \<and>
         (arguments k (ins (resolver (heap w ! b))) opt w = Some (Return (args, None), w3) \<and>
          Nil \<notin> set args \<and> NumOut (resolver (heap w ! b)) \<noteq> 1 \<and>
          NumOut (resolver (heap w ! b)) \<noteq> 2 \<longrightarrow>
            invoke k (resolver (heap w ! b)) opt w =
              Some (Return (Nil, Some SignatureInvalid),
                    w3\<lparr>calls := calls w3 @ [fid (resolver (heap w ! b))]\<rparr>)) \<and>
         (concrete (heap w ! b) = Nil \<and> bindType (heap w ! b) = transientType \<longrightarrow>
            make (Suc k) b opt w = invoke k (resolver (heap w ! b)) opt w \<and>
            (\<forall>r w'. make (Suc k) b opt w = Some (r, w') \<longrightarrow>
               b < length (heap w') \<and> concrete (heap w' ! b) = Nil \<and>
               bindType (heap w' ! b) = transientType \<and>
               resolver (heap w' ! b) = resolver (heap w ! b)))"
proof (intro conjI impI allI)
  assume "concrete (heap w ! b) \<noteq> Nil"
  with assms show "make (Suc k) b opt w = Some (Return (concrete (heap w ! b), None), w)"
    by (rule make_cached)
next
  assume a: "concrete (heap w ! b) = Nil \<and> bindType (heap w ! b) = delaySingletonType \<and>
          invoke k (resolver (heap w ! b)) opt w = Some (Return (v, None), w1)"
  then have i: "invoke k (resolver (heap w ! b)) opt w = Some (Return (v, None), w1)"
    and n: "concrete (heap w ! b) = Nil" and l: "bindType (heap w ! b) = delaySingletonType"
    by simp_all
  from make_lazy(1) [OF assms n l i]
  show "make (Suc k) b opt w = Some (Return (v, None), cached b v w1)" by simp
  from make_lazy(3) [OF assms n l i]
  show c: "concrete (heap (cached b v w1) ! b) = v" .
  fix k' opt'
  assume "v \<noteq> Nil"
  with make_cached [OF make_lazy(2) [OF assms n l i], of k' opt'] c
  show "make (Suc k') b opt' (cached b v w1) = Some (Return (v, None), cached b v w1)"
    by simp
next
  assume a: "concrete (heap w ! b) = Nil \<and> bindType (heap w ! b) = delaySingletonType \<and>
      invoke k (resolver (heap w ! b)) opt w = Some (Return (u, Some e), w2)"
  then have i: "invoke k (resolver (heap w ! b)) opt w = Some (Return (u, Some e), w2)"
    and n: "concrete (heap w ! b) = Nil" and l: "bindType (heap w ! b) = delaySingletonType"
    by simp_all
  from make_lazy(1) [OF assms n l i]
  have m: "make (Suc k) b opt w = Some (Return (Nil, Some e), cached b u w2)" by simp
  then show "\<exists>w'. make (Suc k) b opt w = Some (Return (Nil, Some e), w')" by blast
  assume u: "u = Nil"
  from m u show "make (Suc k) b opt w = Some (Return (Nil, Some e), cached b Nil w2)" by simp
  from make_lazy(2) [OF assms n l i] u show "b < length (heap (cached b Nil w2))" by simp
  from make_lazy(3) [OF assms n l i] u show "concrete (heap (cached b Nil w2) ! b) = Nil"
    by simp
  from make_lazy(4) [OF assms n l i] u
  show "bindType (heap (cached b Nil w2) ! b) = delaySingletonType" by simp
  from make_lazy(5) [OF assms n l i] u
  show "resolver (heap (cached b Nil w2) ! b) = resolver (heap w ! b)" by simp
next
  assume "arguments k (ins (resolver (heap w ! b))) opt w = Some (Return (args, Some e'), w3)"
  then show "invoke k (resolver (heap w ! b)) opt w = Some (Return (Nil, Some e'), w3)"
    by (rule invoke_arguments_fail)
next
  assume "arguments k (ins (resolver (heap w ! b))) opt w = Some (Return (args, None), w3) \<and>
      Nil \<notin> set args \<and> NumOut (resolver (heap w ! b)) \<noteq> 1 \<and>
      NumOut (resolver (heap w ! b)) \<noteq> 2"
  then show "invoke k (resolver (heap w ! b)) opt w =
      Some (Return (Nil, Some SignatureInvalid),
            w3\<lparr>calls := calls w3 @ [fid (resolver (heap w ! b))]\<rparr>)"
    by (simp add: invoke.simps Let_def Call_values_def)
next
  assume a: "concrete (heap w ! b) = Nil \<and> bindType (heap w ! b) = transientType"
  with assms show m: "make (Suc k) b opt w = invoke k (resolver (heap w ! b)) opt w"
    by (simp add: make.simps)
  fix r w'
  assume "make (Suc k) b opt w = Some (r, w')"
  then have "frame w w'" by (rule make_frame)
  with assms a show "b < length (heap w')" "concrete (heap w' ! b) = Nil"
    "bindType (heap w' ! b) = transientType" "resolver (heap w' ! b) = resolver (heap w ! b)"
    by (simp_all add: frame_def)
qed

text \<open>
  C3, as stated, fails: the first \<^verbatim>\<open>make\<close> of a LazySingleton whose resolver returns
  the nil interface succeeds, and so does the second, which invokes the resolver again
  and returns another instance. An empty cache and a cached nil are the same to
  \<^verbatim>\<open>make\<close>.
\<close>

theorem C3_counterexample:
  "make 1 0 defaultOption lazyNil = Some (Return (Nil, None), lazyNil\<lparr>calls := [5]\<rparr>) \<and>
   make 1 0 defaultOption (lazyNil\<lparr>calls := [5]\<rparr>) =
     Some (Return (Inst 1, None),
       \<lparr>container = [Shape \<mapsto> ['''' \<mapsto> 0]],
        heap = [\<lparr>bindType = delaySingletonType, resolver = nilThenShape, concrete = Inst 1\<rparr>],
        calls = [5, 5]\<rparr>)"
  by (simp add: eval_nat_numeral make.simps invoke.simps arguments.simps lazyNil_def
      nilThenShape_def Call_values_def NumOut_def upt_rec)

theorem C3_witness:
  "make (Suc 0) 2 defaultOption threeKinds = Some (Return (Inst 0, None), threeKinds) \<and>
   invoke 1 dbOfShape defaultOption threeKinds =
     Some (Return (Inst 2, None), threeKinds\<lparr>calls := [1, 1, 6]\<rparr>) \<and>
   make (Suc 1) 1 defaultOption threeKinds =
     Some (Return (Inst 2, None), cached 1 (Inst 2) (threeKinds\<lparr>calls := [1, 1, 6]\<rparr>)) \<and>
   make (Suc 0) 1 defaultOption (cached 1 (Inst 2) (threeKinds\<lparr>calls := [1, 1, 6]\<rparr>)) =
     Some (Return (Inst 2, None), cached 1 (Inst 2) (threeKinds\<lparr>calls := [1, 1, 6]\<rparr>)) \<and>
   arguments 0 (ins dbOfShape) (defaultOption\<lparr>name := ''other''\<rparr>) threeKinds =
     Some (Return ([], Some (NoBindingFound Shape)), threeKinds) \<and>
   invoke 0 dbOfShape (defaultOption\<lparr>name := ''other''\<rparr>) threeKinds =
     Some (Return (Nil, Some (NoBindingFound Shape)), threeKinds) \<and>
   make (Suc 0) 1 (defaultOption\<lparr>name := ''other''\<rparr>) threeKinds =
     Some (Return (Nil, Some (NoBindingFound Shape)), cached 1 Nil threeKinds) \<and>
   concrete (heap (cached 1 Nil threeKinds) ! 1) = Nil \<and>
   invoke 0 noShape defaultOption lazyNoShape =
     Some (Return (Nil, Some (Custom ''boom'')), lazyNoShape\<lparr>calls := [9]\<rparr>) \<and>
   make (Suc 0) 0 defaultOption lazyNoShape =
     Some (Return (Nil, Some (Custom ''boom'')), cached 0 Nil (lazyNoShape\<lparr>calls := [9]\<rparr>)) \<and>
   concrete (heap (cached 0 Nil (lazyNoShape\<lparr>calls := [9]\<rparr>)) ! 0) = Nil \<and>
   bindType (heap (cached 0 Nil (lazyNoShape\<lparr>calls := [9]\<rparr>)) ! 0) = delaySingletonType \<and>
   arguments 0 (ins threeResults) defaultOption lazyThree =
     Some (Return ([], None), lazyThree) \<and>
   NumOut threeResults = 3 \<and>
   invoke 0 threeResults defaultOption lazyThree =
     Some (Return (Nil, Some SignatureInvalid), lazyThree\<lparr>calls := [3]\<rparr>) \<and>
   make (Suc 0) 0 defaultOption lazyThree =
     Some (Return (Nil, Some SignatureInvalid), cached 0 Nil (lazyThree\<lparr>calls := [3]\<rparr>)) \<and>
   concrete (heap (cached 0 Nil (lazyThree\<lparr>calls := [3]\<rparr>)) ! 0) = Nil \<and>
   make (Suc 0) 0 defaultOption threeKinds =
     Some (Return (Inst 1, None), threeKinds\<lparr>calls := [1, 1]\<rparr>) \<and>
   concrete (heap (threeKinds\<lparr>calls := [1, 1]\<rparr>) ! 0) = Nil"
proof -
  have len: "0 < length (heap threeKinds)" "1 < length (heap threeKinds)"
    "2 < length (heap threeKinds)"
    by (simp_all add: threeKinds_def)
  have b0: "heap threeKinds ! 0 = \<lparr>bindType = transientType, resolver = newShape, concrete = Nil\<rparr>"
    and b1: "heap threeKinds ! 1 = \<lparr>bindType = delaySingletonType, resolver = dbOfShape, concrete = Nil\<rparr>"
    and b2: "heap threeKinds ! 2 = \<lparr>bindType = singletonType, resolver = newShape, concrete = Inst 0\<rparr>"
    by (simp_all add: threeKinds_def)
  have d: "Database \<noteq> Shape" "RType ''Logger'' \<noteq> Shape"
    by (simp_all add: Database_def Shape_def)
  have i0: "invoke 0 newShape defaultOption threeKinds =
      Some (Return (Inst 1, None), threeKinds\<lparr>calls := [1, 1]\<rparr>)"
    by (simp add: invoke.simps arguments.simps newShape_def Call_values_def NumOut_def upt_rec)
      (simp add: threeKinds_def)
  note t0 = C3_make_lifecycles [OF len(1), of 0 defaultOption Nil threeKinds Nil
      InvalidStructure threeKinds "[]" InvalidStructure threeKinds]
  note t2 = C3_make_lifecycles [OF len(3), of 0 defaultOption Nil threeKinds Nil
      InvalidStructure threeKinds "[]" InvalidStructure threeKinds]
  note t1 = C3_make_lifecycles [OF len(2), of 1 defaultOption "Inst 2"
      "threeKinds\<lparr>calls := [1, 1, 6]\<rparr>" Nil InvalidStructure threeKinds "[]"
      InvalidStructure threeKinds]
  note tf = C3_make_lifecycles [OF len(2), of 0 "defaultOption\<lparr>name := ''other''\<rparr>" Nil
      threeKinds Nil "NoBindingFound Shape" threeKinds "[]" "NoBindingFound Shape" threeKinds]
  have m0: "make (Suc 0) 0 defaultOption threeKinds =
      Some (Return (Inst 1, None), threeKinds\<lparr>calls := [1, 1]\<rparr>)"
    using t0 i0 by (simp add: b0)
  have g: "getBinding (container threeKinds) Shape (toNames (name defaultOption)) = Return (Some 0)"
    using d by (simp add: getBinding_def threeKinds_def defaultOption_def toNames_def)
  have insd: "ins dbOfShape = [Shape]" by (simp add: dbOfShape_def)
  have a1: "arguments (Suc 0) [Shape] defaultOption threeKinds =
      Some (Return ([Inst (Suc 0)], None), threeKinds\<lparr>calls := [Suc 0, Suc 0]\<rparr>)"
    using m0 by (simp add: arguments.simps g)
  have i1: "invoke 1 dbOfShape defaultOption threeKinds =
      Some (Return (Inst 2, None), threeKinds\<lparr>calls := [1, 1, 6]\<rparr>)"
    by (simp add: invoke.simps insd a1 Call_values_def) (simp add: dbOfShape_def NumOut_def upt_rec)
  have tn: "toNames ''other'' = [''other'']"
    by (simp add: toNames_def TrimSpace_def isSpace_def)
  have af: "arguments 0 (ins dbOfShape) (defaultOption\<lparr>name := ''other''\<rparr>) threeKinds =
      Some (Return ([], Some (NoBindingFound Shape)), threeKinds)"
    using d by (simp add: dbOfShape_def arguments.simps tn getBinding_def threeKinds_def)
  have m2: "make (Suc 0) 2 defaultOption threeKinds = Some (Return (Inst 0, None), threeKinds)"
    using t2 by (simp add: b2)
  have h1: "concrete (heap threeKinds ! 1) = Nil \<and>
      bindType (heap threeKinds ! 1) = delaySingletonType \<and>
      invoke 1 (resolver (heap threeKinds ! 1)) defaultOption threeKinds =
        Some (Return (Inst 2, None), threeKinds\<lparr>calls := [1, 1, 6]\<rparr>)"
    using i1 b1 by (simp del: One_nat_def)
  have m1: "make (Suc 1) 1 defaultOption threeKinds =
     Some (Return (Inst 2, None), cached 1 (Inst 2) (threeKinds\<lparr>calls := [1, 1, 6]\<rparr>))"
    and m1': "make (Suc 0) 1 defaultOption (cached 1 (Inst 2) (threeKinds\<lparr>calls := [1, 1, 6]\<rparr>)) =
     Some (Return (Inst 2, None), cached 1 (Inst 2) (threeKinds\<lparr>calls := [1, 1, 6]\<rparr>))"
    using t1 h1 by blast+
  have haf: "arguments 0 (ins (resolver (heap threeKinds ! 1))) (defaultOption\<lparr>name := ''other''\<rparr>)
        threeKinds = Some (Return ([], Some (NoBindingFound Shape)), threeKinds)"
    using af b1 by (simp del: One_nat_def)
  have "invoke 0 (resolver (heap threeKinds ! 1)) (defaultOption\<lparr>name := ''other''\<rparr>) threeKinds =
      Some (Return (Nil, Some (NoBindingFound Shape)), threeKinds)"
    using tf haf by blast
  then have hf: "concrete (heap threeKinds ! 1) = Nil \<and>
      bindType (heap threeKinds ! 1) = delaySingletonType \<and>
      invoke 0 (resolver (heap threeKinds ! 1)) (defaultOption\<lparr>name := ''other''\<rparr>) threeKinds =
        Some (Return (Nil, Some (NoBindingFound Shape)), threeKinds)"
    and ifl: "invoke 0 dbOfShape (defaultOption\<lparr>name := ''other''\<rparr>) threeKinds =
      Some (Return (Nil, Some (NoBindingFound Shape)), threeKinds)"
    using b1 by (simp_all del: One_nat_def)
  have mf: "make (Suc 0) 1 (defaultOption\<lparr>name := ''other''\<rparr>) threeKinds =
     Some (Return (Nil, Some (NoBindingFound Shape)), cached 1 Nil threeKinds)"
    and cf: "concrete (heap (cached 1 Nil threeKinds) ! 1) = Nil"
    using tf hf by blast+
  have c0: "concrete (heap (threeKinds\<lparr>calls := [1, 1]\<rparr>) ! 0) = Nil"
    by (simp add: b0)
  have lenn: "0 < length (heap lazyNoShape)" by (simp add: lazyNoShape_def)
  have bn: "heap lazyNoShape ! 0 =
      \<lparr>bindType = delaySingletonType, resolver = noShape, concrete = Nil\<rparr>"
    by (simp add: lazyNoShape_def)
  have inn: "invoke 0 noShape defaultOption lazyNoShape =
     Some (Return (Nil, Some (Custom ''boom'')), lazyNoShape\<lparr>calls := [9]\<rparr>)"
    by (simp add: invoke.simps arguments.simps noShape_def Call_values_def NumOut_def upt_rec)
      (simp add: lazyNoShape_def)
  note tn' = C3_make_lifecycles [OF lenn, of 0 defaultOption Nil lazyNoShape Nil
      "Custom ''boom''" "lazyNoShape\<lparr>calls := [9]\<rparr>" "[]" InvalidStructure lazyNoShape]
  have hn: "concrete (heap lazyNoShape ! 0) = Nil \<and>
      bindType (heap lazyNoShape ! 0) = delaySingletonType \<and>
      invoke 0 (resolver (heap lazyNoShape ! 0)) defaultOption lazyNoShape =
        Some (Return (Nil, Some (Custom ''boom'')), lazyNoShape\<lparr>calls := [9]\<rparr>)"
    using inn bn by simp
  have mn: "make (Suc 0) 0 defaultOption lazyNoShape =
     Some (Return (Nil, Some (Custom ''boom'')), cached 0 Nil (lazyNoShape\<lparr>calls := [9]\<rparr>))"
    and cn: "concrete (heap (cached 0 Nil (lazyNoShape\<lparr>calls := [9]\<rparr>)) ! 0) = Nil"
    and ln: "bindType (heap (cached 0 Nil (lazyNoShape\<lparr>calls := [9]\<rparr>)) ! 0) = delaySingletonType"
    using tn' hn by blast+
  have len3: "0 < length (heap lazyThree)" by (simp add: lazyThree_def)
  have b3: "heap lazyThree ! 0 =
      \<lparr>bindType = delaySingletonType, resolver = threeResults, concrete = Nil\<rparr>"
    by (simp add: lazyThree_def)
  have a3: "arguments 0 (ins threeResults) defaultOption lazyThree =
      Some (Return ([], None), lazyThree)"
    by (simp add: threeResults_def arguments.simps)
  have n3: "NumOut threeResults = 3" by (simp add: NumOut_def threeResults_def)
  have f3: "fid threeResults = 3" by (simp add: threeResults_def)
  have c3: "calls lazyThree = []" by (simp add: lazyThree_def)
  note t3 = C3_make_lifecycles [OF len3, of 0 defaultOption Nil lazyThree Nil
      SignatureInvalid "lazyThree\<lparr>calls := [3]\<rparr>" "[]" InvalidStructure lazyThree]
  have h3: "arguments 0 (ins (resolver (heap lazyThree ! 0))) defaultOption lazyThree =
        Some (Return ([], None), lazyThree) \<and>
      Nil \<notin> set ([]::val list) \<and> NumOut (resolver (heap lazyThree ! 0)) \<noteq> 1 \<and>
      NumOut (resolver (heap lazyThree ! 0)) \<noteq> 2"
    using a3 n3 b3 by simp
  have "invoke 0 (resolver (heap lazyThree ! 0)) defaultOption lazyThree =
      Some (Return (Nil, Some SignatureInvalid),
            lazyThree\<lparr>calls := calls lazyThree @ [fid (resolver (heap lazyThree ! 0))]\<rparr>)"
    using t3 h3 by blast
  then have i3: "invoke 0 threeResults defaultOption lazyThree =
      Some (Return (Nil, Some SignatureInvalid), lazyThree\<lparr>calls := [3]\<rparr>)"
    by (simp add: b3 f3 c3)
  have hm3: "concrete (heap lazyThree ! 0) = Nil \<and>
      bindType (heap lazyThree ! 0) = delaySingletonType \<and>
      invoke 0 (resolver (heap lazyThree ! 0)) defaultOption lazyThree =
        Some (Return (Nil, Some SignatureInvalid), lazyThree\<lparr>calls := [3]\<rparr>)"
    using i3 b3 by simp
  have m3: "make (Suc 0) 0 defaultOption lazyThree =
     Some (Return (Nil, Some SignatureInvalid), cached 0 Nil (lazyThree\<lparr>calls := [3]\<rparr>))"
    and cc3: "concrete (heap (cached 0 Nil (lazyThree\<lparr>calls := [3]\<rparr>)) ! 0) = Nil"
    using t3 hm3 by blast+
  show ?thesis
    by (intro conjI) (rule m2 i1 m1 m1' af ifl mf cf inn mn cn ln a3 n3 i3 m3 cc3 m0 c0)+
qed

lemma bind_entry_fields:
  "heap (bind_entry f w) = heap w" "calls (bind_entry f w) = calls w"
  by (simp_all add: bind_entry_def split: option.splits)

lemma bind_entry_container:
  "0 < NumOut f \<Longrightarrow> container (bind_entry f w) (Out f 0) \<noteq> None"
  by (simp add: bind_entry_def split: option.splits)

text \<open>
  C4 (as amended). For every lifecycle, \<^verbatim>\<open>bind\<close> returns the error "the resolver must
  be a function" when the resolver is a non-nil value that is not a function. The number
  of results is checked only where the resolver is invoked: an eager Singleton
  registration whose arguments resolve returns "resolver function signature is invalid"
  when the resolver has no result or more than two; a LazySingleton or Transient
  registration of a resolver with at least one result does not look at the number of
  results and, when the slot is free, stores the binding under the first result type.
\<close>

theorem C4_resolver_shape:
  "(r = Pointer t \<or> r = StructPointer t fs \<or> r = Other \<longrightarrow>
      bind k r bt opt w = Some (Return (Some MustBeFunction), w)) \<and>
   (arguments k (ins f) opt (bind_entry f w) = Some (Return (args, None), w1) \<and>
    Nil \<notin> set args \<and> NumOut f \<noteq> 1 \<and> NumOut f \<noteq> 2 \<longrightarrow>
      bind k (Function f) singletonType opt w =
        Some (Return (Some SignatureInvalid), w1\<lparr>calls := calls w1 @ [fid f]\<rparr>)) \<and>
   (bt \<noteq> singletonType \<and> 0 < NumOut f \<and> container (bind_entry f w) (Out f 0) = Some m \<and>
    m (name opt) = None \<longrightarrow>
      bind k (Function f) bt opt w =
        Some (Return None,
          w\<lparr>container := (container w)(Out f 0 \<mapsto> m(name opt \<mapsto> length (heap w))),
            heap := heap w @ [\<lparr>bindType = bt, resolver = f, concrete = Nil\<rparr>]\<rparr>))"
proof (intro conjI impI)
  assume "r = Pointer t \<or> r = StructPointer t fs \<or> r = Other"
  then show "bind k r bt opt w = Some (Return (Some MustBeFunction), w)"
    by (auto simp: bind_def)
next
  assume a: "arguments k (ins f) opt (bind_entry f w) = Some (Return (args, None), w1) \<and>
    Nil \<notin> set args \<and> NumOut f \<noteq> 1 \<and> NumOut f \<noteq> 2"
  then have "invoke k f opt (bind_entry f w) =
      Some (Return (Nil, Some SignatureInvalid), w1\<lparr>calls := calls w1 @ [fid f]\<rparr>)"
    by (simp add: invoke.simps Let_def Call_values_def)
  then show "bind k (Function f) singletonType opt w =
        Some (Return (Some SignatureInvalid), w1\<lparr>calls := calls w1 @ [fid f]\<rparr>)"
    by (simp add: bind_def)
next
  assume a: "bt \<noteq> singletonType \<and> 0 < NumOut f \<and>
    container (bind_entry f w) (Out f 0) = Some m \<and> m (name opt) = None"
  have eq: "w\<lparr>container := (container w)(Out f 0 \<mapsto> m(name opt \<mapsto> length (heap w))),
            heap := heap w @ [\<lparr>bindType = bt, resolver = f, concrete = Nil\<rparr>]\<rparr> =
        (bind_entry f w)\<lparr>container :=
            (container (bind_entry f w))(Out f 0 \<mapsto> m(name opt \<mapsto> length (heap (bind_entry f w)))),
          heap := heap (bind_entry f w) @ [\<lparr>bindType = bt, resolver = f, concrete = Nil\<rparr>]\<rparr>"
    by (simp add: bind_entry_def split: option.splits)
  show "bind k (Function f) bt opt w =
        Some (Return None,
          w\<lparr>container := (container w)(Out f 0 \<mapsto> m(name opt \<mapsto> length (heap w))),
            heap := heap w @ [\<lparr>bindType = bt, resolver = f, concrete = Nil\<rparr>]\<rparr>)"
    unfolding eq using a by (simp add: bind_def Let_def)
qed

text \<open>
  C4, as stated, fails: a Transient registration of a resolver with three results
  succeeds and stores the binding.
\<close>

theorem C4_counterexample:
  "NumOut threeResults = 3 \<and>
   bind 0 (Function threeResults) transientType defaultOption New =
     Some (Return None,
       \<lparr>container = [Shape \<mapsto> ['''' \<mapsto> 0]],
        heap = [\<lparr>bindType = transientType, resolver = threeResults, concrete = Nil\<rparr>],
        calls = []\<rparr>)"
  by (simp add: bind_def bind_entry_def NumOut_def Out_def threeResults_def New_def
      defaultOption_def)

theorem C4_witness:
  "bind 0 Other singletonType defaultOption New = Some (Return (Some MustBeFunction), New) \<and>
   bind 0 Other transientType defaultOption New = Some (Return (Some MustBeFunction), New) \<and>
   arguments 0 (ins threeResults) defaultOption (bind_entry threeResults New) =
     Some (Return ([], None), New\<lparr>container := [Shape \<mapsto> Map.empty]\<rparr>) \<and>
   NumOut threeResults = 3 \<and>
   bind 0 (Function threeResults) singletonType defaultOption New =
     Some (Return (Some SignatureInvalid), \<lparr>container = [Shape \<mapsto> Map.empty], heap = [], calls = [3]\<rparr>) \<and>
   container (bind_entry threeResults New) (Out threeResults 0) = Some Map.empty \<and>
   bind 0 (Function threeResults) delaySingletonType defaultOption New =
     Some (Return None,
       \<lparr>container = [Shape \<mapsto> ['''' \<mapsto> 0]],
        heap = [\<lparr>bindType = delaySingletonType, resolver = threeResults, concrete = Nil\<rparr>],
        calls = []\<rparr>)"
proof -
  have n: "NumOut threeResults = 3" by (simp add: NumOut_def threeResults_def)
  have be: "bind_entry threeResults New = New\<lparr>container := [Shape \<mapsto> Map.empty]\<rparr>"
    by (simp add: bind_entry_def NumOut_def Out_def threeResults_def New_def)
  have a: "arguments 0 (ins threeResults) defaultOption (bind_entry threeResults New) =
     Some (Return ([], None), New\<lparr>container := [Shape \<mapsto> Map.empty]\<rparr>)"
    by (simp add: be) (simp add: threeResults_def arguments.simps)
  have c: "container (bind_entry threeResults New) (Out threeResults 0) = Some Map.empty"
    by (simp add: be) (simp add: Out_def threeResults_def)
  have o: "Out threeResults 0 = Shape" by (simp add: Out_def threeResults_def)
  note t1 = C4_resolver_shape [of Other Shape "[]" 0 singletonType defaultOption New
      threeResults "[]" "New\<lparr>container := [Shape \<mapsto> Map.empty]\<rparr>" Map.empty]
  note t2 = C4_resolver_shape [of Other Shape "[]" 0 transientType defaultOption New
      threeResults "[]" "New\<lparr>container := [Shape \<mapsto> Map.empty]\<rparr>" Map.empty]
  note t3 = C4_resolver_shape [of Other Shape "[]" 0 delaySingletonType defaultOption New
      threeResults "[]" "New\<lparr>container := [Shape \<mapsto> Map.empty]\<rparr>" Map.empty]
  have b1: "bind 0 Other singletonType defaultOption New = Some (Return (Some MustBeFunction), New)"
    using t1 by simp
  have b2: "bind 0 Other transientType defaultOption New = Some (Return (Some MustBeFunction), New)"
    using t2 by simp
  have b3: "bind 0 (Function threeResults) singletonType defaultOption New =
     Some (Return (Some SignatureInvalid), \<lparr>container = [Shape \<mapsto> Map.empty], heap = [], calls = [3]\<rparr>)"
    using t1 a n by (simp add: New_def threeResults_def)
  have b4: "bind 0 (Function threeResults) delaySingletonType defaultOption New =
     Some (Return None,
       \<lparr>container = [Shape \<mapsto> ['''' \<mapsto> 0]],
        heap = [\<lparr>bindType = delaySingletonType, resolver = threeResults, concrete = Nil\<rparr>],
        calls = []\<rparr>)"
    using t3 c n o by (simp add: New_def defaultOption_def)
  show ?thesis using b1 b2 a n b3 c b4 by simp
qed

lemma bind_entry_bindingAt:
  "bindingAt (container (bind_entry f w)) t n = bindingAt (container w) t n"
  by (simp add: bind_entry_def bindingAt_def split: option.splits)

text \<open>
  C5 (as amended). In an eager Singleton registration the resolver is invoked during
  \<^verbatim>\<open>bind\<close>, before it returns, once its arguments have been resolved. If the invocation
  returns an error, \<^verbatim>\<open>bind\<close> returns that error and no binding is stored: no
  (type, qualifier) pair changes and no binding is allocated. The container is not left
  unchanged, though: when the resolver has a result, its first result type has an entry
  afterwards (an empty map if it had none before).
\<close>

theorem C5_eager_singleton:
  "(arguments k (ins f) opt (bind_entry f w) = Some (Return (args, None), wa) \<and>
    Nil \<notin> set args \<longrightarrow>
      (\<exists>res w'. bind k (Function f) singletonType opt w = Some (res, w') \<and>
                 calls wa = calls w @ drop (length (calls w)) (calls wa) \<and>
                 calls w' = calls wa @ [fid f])) \<and>
   (invoke k f opt (bind_entry f w) = Some (Return (v, Some e), w1) \<longrightarrow>
      bind k (Function f) singletonType opt w = Some (Return (Some e), w1) \<and>
      (\<forall>t n. bindingAt (container w1) t n = bindingAt (container w) t n) \<and>
      length (heap w1) = length (heap w) \<and>
      container w1 = container (bind_entry f w) \<and>
      (0 < NumOut f \<longrightarrow> container w1 (Out f 0) \<noteq> None))"
proof (intro conjI impI)
  assume a: "arguments k (ins f) opt (bind_entry f w) = Some (Return (args, None), wa) \<and>
    Nil \<notin> set args"
  then have "frame (bind_entry f w) wa" by (auto dest: arguments_frame)
  then obtain new where "calls wa = calls w @ new"
    by (auto simp: frame_def take_is_prefix bind_entry_fields)
  then have pre: "calls wa = calls w @ drop (length (calls w)) (calls wa)" by simp
  from a have "\<exists>r. invoke k f opt (bind_entry f w) =
      Some (Return r, wa\<lparr>calls := calls wa @ [fid f]\<rparr>)"
    by (simp add: invoke.simps Let_def split: option.splits)
  then obtain r w2 where
    inv: "invoke k f opt (bind_entry f w) = Some (Return r, w2)" "calls w2 = calls wa @ [fid f]"
    by auto
  obtain c e where r: "r = (c, e)" by (cases r)
  have "\<exists>res w'. bind k (Function f) singletonType opt w = Some (res, w') \<and>
      calls w' = calls wa @ [fid f]"
    using inv r by (cases e) (auto simp: bind_def Let_def split: option.splits)
  with pre show "\<exists>res w'. bind k (Function f) singletonType opt w = Some (res, w') \<and>
      calls wa = calls w @ drop (length (calls w)) (calls wa) \<and> calls w' = calls wa @ [fid f]"
    by blast
next
  assume i: "invoke k f opt (bind_entry f w) = Some (Return (v, Some e), w1)"
  then have fr: "frame (bind_entry f w) w1" by (rule invoke_frame)
  from i show "bind k (Function f) singletonType opt w = Some (Return (Some e), w1)"
    by (simp add: bind_def)
  from fr show "\<forall>t n. bindingAt (container w1) t n = bindingAt (container w) t n"
    by (simp add: frame_def bind_entry_bindingAt)
  from fr show "length (heap w1) = length (heap w)"
    by (simp add: frame_def bind_entry_fields)
  from fr show c: "container w1 = container (bind_entry f w)"
    by (simp add: frame_def)
  assume "0 < NumOut f"
  then show "container w1 (Out f 0) \<noteq> None"
    using c bind_entry_container by simp
qed

text \<open>
  C5, as stated, fails: the eager registration of a resolver that returns an error leaves
  an entry for \<open>Shape\<close> in a container that had none.
\<close>

theorem C5_counterexample:
  "container New Shape = None \<and>
   bind 0 (Function failingShape) singletonType defaultOption New =
     Some (Return (Some (Custom ''boom'')),
       \<lparr>container = [Shape \<mapsto> Map.empty], heap = [], calls = [2]\<rparr>) \<and>
   container \<lparr>container = [Shape \<mapsto> Map.empty], heap = [], calls = [2]\<rparr> Shape = Some Map.empty"
  by (simp add: bind_def bind_entry_def NumOut_def Out_def failingShape_def New_def
      defaultOption_def invoke.simps arguments.simps Call_values_def upt_rec)

theorem C5_witness:
  "arguments 0 (ins failingShape) defaultOption (bind_entry failingShape New) =
     Some (Return ([], None), New\<lparr>container := [Shape \<mapsto> Map.empty]\<rparr>) \<and>
   invoke 0 failingShape defaultOption (bind_entry failingShape New) =
     Some (Return (Inst 0, Some (Custom ''boom'')),
       \<lparr>container = [Shape \<mapsto> Map.empty], heap = [], calls = [2]\<rparr>) \<and>
   bind 0 (Function failingShape) singletonType defaultOption New =
     Some (Return (Some (Custom ''boom'')),
       \<lparr>container = [Shape \<mapsto> Map.empty], heap = [], calls = [2]\<rparr>) \<and>
   bindingAt [Shape \<mapsto> Map.empty] Shape '''' = bindingAt (container New) Shape ''''"
proof -
  have be: "bind_entry failingShape New = New\<lparr>container := [Shape \<mapsto> Map.empty]\<rparr>"
    by (simp add: bind_entry_def NumOut_def Out_def failingShape_def New_def)
  have a: "arguments 0 (ins failingShape) defaultOption (bind_entry failingShape New) =
     Some (Return ([], None), New\<lparr>container := [Shape \<mapsto> Map.empty]\<rparr>)"
    by (simp add: be) (simp add: failingShape_def arguments.simps)
  have i: "invoke 0 failingShape defaultOption (bind_entry failingShape New) =
     Some (Return (Inst 0, Some (Custom ''boom'')),
       \<lparr>container = [Shape \<mapsto> Map.empty], heap = [], calls = [2]\<rparr>)"
    by (simp add: be)
      (simp add: invoke.simps arguments.simps failingShape_def New_def Call_values_def
        NumOut_def upt_rec)
  note t = C5_eager_singleton [of 0 failingShape defaultOption New "[]"
      "New\<lparr>container := [Shape \<mapsto> Map.empty]\<rparr>" "Inst 0" "Custom ''boom''"
      "\<lparr>container = [Shape \<mapsto> Map.empty], heap = [], calls = [2]\<rparr>"]
  from t a i show ?thesis by (simp add: bind_entry_bindingAt)
qed

text \<open>
  C6. \<^verbatim>\<open>toNames\<close> (ExpandQualifier) maps the empty string to the single default
  qualifier; a non-empty string is split on commas, every segment is trimmed, segments
  that are empty after trimming are dropped, the segment \<^verbatim>\<open>type\<close> becomes the empty
  qualifier and every other segment is kept as it is, in the order of the input.
\<close>

theorem C6_toNames_refines_spec: "toNames raw = ExpandQualifier_spec raw"
proof (cases "raw = []")
  case True
  then show ?thesis by (simp add: toNames_def ExpandQualifier_spec_def)
next
  case False
  have "toNames raw = toNames_loop (Split (TrimSpace raw)) []"
    using False by (simp add: toNames_def)
  also have "\<dots> = map (\<lambda>seg. if seg = ''type'' then '''' else seg)
             (filter (\<lambda>seg. seg \<noteq> '''') (map TrimSpace (Split (TrimSpace raw))))"
    by (simp add: toNames_loop_eq)
  also have "\<dots> = ExpandQualifier_spec raw"
    using False by (simp only: map_Trim_Split_TrimSpace ExpandQualifier_spec_def if_False)
  finally show ?thesis .
qed



lemma getBinding_loop_none:
  "\<forall>n\<in>set names. src n = None \<Longrightarrow> getBinding_loop src names = None"
  by (induction names) simp_all

lemma Fill_loop_append:
  "Fill_loop k done pre opt w = Some (Return (done', None), w') \<Longrightarrow>
   Fill_loop k done (pre @ rest) opt w = Fill_loop k done' rest opt w'"
proof (induction pre arbitrary: "done" w)
  case Nil
  then show ?case by simp
next
  case (Cons f pre)
  show ?case
  proof (cases "ftag f")
    case None
    with Cons.prems have "Fill_loop k (done @ [f]) pre opt w = Some (Return (done', None), w')"
      by simp
    from Cons.IH [OF this] None show ?thesis by simp
  next
    case (Some t)
    let ?names = "Fill_names (fname f) t"
    from Cons.prems Some obtain b where
      g: "getBinding (container w) (ftype f) ?names = Return (Some b)"
      by (auto simp: Let_def split: outcome.splits option.splits)
    from Cons.prems Some g obtain inst err w1 where
      m: "make k b opt w = Some (Return (inst, err), w1)" and ne: "inst \<noteq> Nil"
      by (auto simp: Let_def split: outcome.splits option.splits prod.splits if_splits)
    from Cons.prems Some g m ne
    have "Fill_loop k (done @ [f\<lparr>fval := inst\<rparr>]) pre opt w1 = Some (Return (done', None), w')"
      by (simp add: Let_def)
    from Cons.IH [OF this] Some g m ne show ?thesis by (simp add: Let_def)
  qed
qed

text \<open>
  C8 (as amended). When \<^verbatim>\<open>Fill\<close> has passed the fields before an annotated field, and
  the container has an entry for that field's type but no binding under any of the
  field's qualifier candidates, \<^verbatim>\<open>Fill\<close> returns the error "cannot make f(t) field with
  tags [...]" that names the field, its type and all the candidates, joined by commas.
  The fields before it keep what was assigned to them, and the field and all the fields
  after it are left as they were.
\<close>

theorem C8_Fill_unmatched_field:
  assumes "Fill k (StructPointer s pre) w = Some (Return (assigned, None), w1)"
    and "ftag f = Some t"
    and "container w1 (ftype f) = Some m"
    and "\<forall>n\<in>set (Fill_names (fname f) t). m n = None"
  shows "Fill k (StructPointer s (pre @ f # rest)) w =
           Some (Return (assigned @ f # rest,
                   Some (CannotMakeField (fname f) (ftype f) (Join (Fill_names (fname f) t)))), w1)"
proof -
  from assms(1) have pre: "Fill_loop k [] pre defaultOption w = Some (Return (assigned, None), w1)"
    by (simp add: Fill_def)
  have g: "getBinding (container w1) (ftype f) (Fill_names (fname f) t) = Return None"
    using assms(3,4) by (simp add: getBinding_def getBinding_loop_none)
  have "Fill k (StructPointer s (pre @ f # rest)) w =
      Fill_loop k assigned (f # rest) defaultOption w1"
    using Fill_loop_append [OF pre] by (simp add: Fill_def)
  also have "\<dots> = Some (Return (assigned @ f # rest,
                   Some (CannotMakeField (fname f) (ftype f) (Join (Fill_names (fname f) t)))), w1)"
    using assms(2) g by (simp add: Let_def)
  finally show ?thesis .
qed

text \<open>
  C8, as stated, fails: when the type of the annotated field has no entry at all in the
  container, \<^verbatim>\<open>Fill\<close> assigns the fields before it and then panics; no error is
  returned.
\<close>

theorem C8_counterexample:
  "container oneShape Database = None \<and>
   Fill 1 (StructPointer (RType ''Canvas'') [shapeField, dbField]) oneShape =
     Some (Panic (PanicNoBinding Database),
       \<lparr>container = [Shape \<mapsto> ['''' \<mapsto> 0]],
        heap = [\<lparr>bindType = delaySingletonType, resolver = newShape, concrete = Inst 0\<rparr>],
        calls = [1]\<rparr>)"
proof -
  let ?w1 = "\<lparr>container = [Shape \<mapsto> ['''' \<mapsto> 0]],
        heap = [\<lparr>bindType = delaySingletonType, resolver = newShape, concrete = Inst 0\<rparr>],
        calls = [1]\<rparr>"
  have mk: "make 1 0 defaultOption oneShape = Some (Return (Inst 0, None), ?w1)"
    by (simp add: eval_nat_numeral make.simps invoke.simps arguments.simps oneShape_def
        newShape_def Call_values_def NumOut_def upt_rec)
  have n1: "Fill_names (fname shapeField) ''type'' = ['''']"
    by (simp add: Fill_names_def)
  have g1: "getBinding (container oneShape) (ftype shapeField) [''''] = Return (Some 0)"
    by (simp add: getBinding_def oneShape_def shapeField_def)
  have d: "Database \<noteq> Shape" by (simp add: Database_def Shape_def)
  have c: "container oneShape Database = None" using d by (simp add: oneShape_def)
  have g2: "getBinding [Shape \<mapsto> ['''' \<mapsto> 0]] (ftype dbField) names =
      Panic (PanicNoBinding Database)"
    for names using d by (simp add: getBinding_def dbField_def)
  have t1: "ftag shapeField = Some ''type''" by (simp add: shapeField_def)
  have t2: "ftag dbField = Some ''replica,name''" by (simp add: dbField_def)
  have "Fill 1 (StructPointer (RType ''Canvas'') [shapeField, dbField]) oneShape =
     Some (Panic (PanicNoBinding Database), ?w1)"
    by (simp add: Fill_def t1 t2 n1 g1 mk g2 Let_def del: One_nat_def)
  with c show ?thesis by simp
qed

theorem C8_witness:
  "Fill 1 (StructPointer (RType ''Canvas'') [plainField, shapeField]) shapeAndDb =
     Some (Return ([plainField, shapeField\<lparr>fval := Inst 0\<rparr>], None),
           shapeAndDb\<lparr>heap := (heap shapeAndDb)[0 := (heap shapeAndDb ! 0)\<lparr>concrete := Inst 0\<rparr>],
                      calls := [1]\<rparr>) \<and>
   ftag dbField = Some ''replica,name'' \<and>
   Fill_names (fname dbField) ''replica,name'' = [''replica'', ''Db''] \<and>
   Fill 1 (StructPointer (RType ''Canvas'') [plainField, shapeField, dbField, plainField]) shapeAndDb =
     Some (Return ([plainField, shapeField\<lparr>fval := Inst 0\<rparr>, dbField, plainField],
                   Some (CannotMakeField ''Db'' Database ''replica,Db'')),
           shapeAndDb\<lparr>heap := (heap shapeAndDb)[0 := (heap shapeAndDb ! 0)\<lparr>concrete := Inst 0\<rparr>],
                      calls := [1]\<rparr>)"
proof -
  let ?w1 = "shapeAndDb\<lparr>heap := (heap shapeAndDb)[0 := (heap shapeAndDb ! 0)\<lparr>concrete := Inst 0\<rparr>],
                      calls := [1]\<rparr>"
  have mk: "make 1 0 defaultOption shapeAndDb = Some (Return (Inst 0, None), ?w1)"
    by (simp add: eval_nat_numeral make.simps invoke.simps arguments.simps shapeAndDb_def
        newShape_def Call_values_def NumOut_def upt_rec)
  have n1: "Fill_names (fname shapeField) ''type'' = ['''']"
    by (simp add: Fill_names_def)
  have g1: "getBinding (container shapeAndDb) (ftype shapeField) [''''] = Return (Some 0)"
    by (simp add: getBinding_def shapeAndDb_def shapeField_def Database_def Shape_def)
  have t0: "ftag plainField = None" by (simp add: plainField_def)
  have t1: "ftag shapeField = Some ''type''" by (simp add: shapeField_def)
  have pre: "Fill 1 (StructPointer (RType ''Canvas'') [plainField, shapeField]) shapeAndDb =
     Some (Return ([plainField, shapeField\<lparr>fval := Inst 0\<rparr>], None), ?w1)"
    by (simp add: Fill_def t0 t1 n1 g1 mk Let_def del: One_nat_def)
  have t: "ftag dbField = Some ''replica,name''" by (simp add: dbField_def)
  have names: "Fill_names (fname dbField) ''replica,name'' = [''replica'', ''Db'']"
    by (simp add: Fill_names_def dbField_def)
  have c: "container ?w1 (ftype dbField) = Some [''primary'' \<mapsto> 1]"
    by (simp add: shapeAndDb_def dbField_def)
  have none: "\<forall>n\<in>set (Fill_names (fname dbField) ''replica,name''). [''primary'' \<mapsto> 1::nat] n = None"
    by (simp add: names)
  from C8_Fill_unmatched_field [OF pre t c none, of "[plainField]"]
  have "Fill 1 (StructPointer (RType ''Canvas'') [plainField, shapeField, dbField, plainField]) shapeAndDb =
     Some (Return ([plainField, shapeField\<lparr>fval := Inst 0\<rparr>, dbField, plainField],
                   Some (CannotMakeField ''Db'' Database ''replica,Db'')), ?w1)"
    by (simp add: names) (simp add: dbField_def)
  with pre t names show ?thesis by simp
qed

text \<open>
  C9 does not hold of the code. \<^verbatim>\<open>Fill\<close> drops the error of \<^verbatim>\<open>make\<close>
  (\<^verbatim>\<open>instance, _ := concrete.make(c, opt)\<close>): when the Transient resolver of the field's
  type returns an instance together with an error, \<^verbatim>\<open>make\<close> returns both, and \<^verbatim>\<open>Fill\<close>
  assigns the instance and returns no error; when the binding is a LazySingleton,
  \<^verbatim>\<open>make\<close> returns nil with the error and \<^verbatim>\<open>Fill\<close> panics in \<^verbatim>\<open>Set\<close>. \<^verbatim>\<open>Resolve\<close>, on
  the same container, returns the error.
\<close>

theorem C9_Fill_drops_make_error:
  "make 1 0 defaultOption failingTransient =
     Some (Return (Inst 0, Some (Custom ''boom'')), failingTransient\<lparr>calls := [2]\<rparr>) \<and>
   Fill 1 (StructPointer (RType ''Canvas'') [shapeField]) failingTransient =
     Some (Return ([shapeField\<lparr>fval := Inst 0\<rparr>], None), failingTransient\<lparr>calls := [2]\<rparr>) \<and>
   Resolve 1 (Pointer Shape) [] failingTransient =
     Some (Return (None, Some (Custom ''boom'')), failingTransient\<lparr>calls := [2]\<rparr>) \<and>
   make 1 0 defaultOption failingLazy =
     Some (Return (Nil, Some (Custom ''boom'')), cached 0 (Inst 0) (failingLazy\<lparr>calls := [2]\<rparr>)) \<and>
   Fill 1 (StructPointer (RType ''Canvas'') [shapeField]) failingLazy =
     Some (Panic PanicZeroValue, cached 0 (Inst 0) (failingLazy\<lparr>calls := [2]\<rparr>))"
proof -
  have it: "invoke 0 failingShape defaultOption failingTransient =
      Some (Return (Inst 0, Some (Custom ''boom'')), failingTransient\<lparr>calls := [2]\<rparr>)"
    by (simp add: invoke.simps arguments.simps failingShape_def Call_values_def NumOut_def upt_rec)
      (simp add: failingTransient_def)
  have il: "invoke 0 failingShape defaultOption failingLazy =
      Some (Return (Inst 0, Some (Custom ''boom'')), failingLazy\<lparr>calls := [2]\<rparr>)"
    by (simp add: invoke.simps arguments.simps failingShape_def Call_values_def NumOut_def upt_rec)
      (simp add: failingLazy_def)
  have bt: "heap failingTransient ! 0 =
      \<lparr>bindType = transientType, resolver = failingShape, concrete = Nil\<rparr>"
    "length (heap failingTransient) = Suc 0"
    by (simp_all add: failingTransient_def)
  have bl: "heap failingLazy ! 0 =
      \<lparr>bindType = delaySingletonType, resolver = failingShape, concrete = Nil\<rparr>"
    "length (heap failingLazy) = Suc 0"
    by (simp_all add: failingLazy_def)
  have mt: "make 1 0 defaultOption failingTransient =
      Some (Return (Inst 0, Some (Custom ''boom'')), failingTransient\<lparr>calls := [2]\<rparr>)"
    by (simp add: make.simps bt it)
  have ml: "make 1 0 defaultOption failingLazy =
      Some (Return (Nil, Some (Custom ''boom'')), cached 0 (Inst 0) (failingLazy\<lparr>calls := [2]\<rparr>))"
    by (simp add: make.simps bl il cached_def)
  have n1: "Fill_names (fname shapeField) ''type'' = ['''']"
    by (simp add: Fill_names_def)
  have t1: "ftag shapeField = Some ''type''" by (simp add: shapeField_def)
  have gt: "getBinding (container failingTransient) (ftype shapeField) [''''] = Return (Some 0)"
    by (simp add: getBinding_def failingTransient_def shapeField_def)
  have gl: "getBinding (container failingLazy) (ftype shapeField) [''''] = Return (Some 0)"
    by (simp add: getBinding_def failingLazy_def shapeField_def)
  have ft: "Fill 1 (StructPointer (RType ''Canvas'') [shapeField]) failingTransient =
     Some (Return ([shapeField\<lparr>fval := Inst 0\<rparr>], None), failingTransient\<lparr>calls := [2]\<rparr>)"
    by (simp add: Fill_def t1 n1 gt mt Let_def del: One_nat_def)
  have fl: "Fill 1 (StructPointer (RType ''Canvas'') [shapeField]) failingLazy =
     Some (Panic PanicZeroValue, cached 0 (Inst 0) (failingLazy\<lparr>calls := [2]\<rparr>))"
    by (simp add: Fill_def t1 n1 gl ml Let_def del: One_nat_def)
  have gr: "getBinding (container failingTransient) Shape (toNames (name defaultOption)) =
      Return (Some 0)"
    by (simp add: getBinding_def failingTransient_def defaultOption_def toNames_def)
  have rt: "Resolve 1 (Pointer Shape) [] failingTransient =
     Some (Return (None, Some (Custom ''boom'')), failingTransient\<lparr>calls := [2]\<rparr>)"
    by (simp add: Resolve_def LoadOption_def resolve_def resolve_elem_def gr mt del: One_nat_def)
  show ?thesis
    by (intro conjI) (rule mt ft rt ml fl)+
qed

lemma bind_not_eager:
  assumes "bindType' \<noteq> singletonType"
  shows "\<exists>res w'. bind k r bindType' opt w = Some (res, w') \<and> calls w' = calls w \<and>
           (res = Return None \<longrightarrow>
              (\<exists>f. r = Function f \<and>
                   heap w' = heap w @ [\<lparr>bindType = bindType', resolver = f, concrete = Nil\<rparr>]))"
proof (cases r)
  case (Function f)
  have c: "calls (bind_entry f w) = calls w" "heap (bind_entry f w) = heap w"
    by (simp_all add: bind_entry_def split: option.splits)
  show ?thesis using assms Function c
    by (simp add: bind_def Let_def split: option.splits)
qed (simp_all add: bind_def)

text \<open>
  C10. \<^verbatim>\<open>Singleton\<close> and \<^verbatim>\<open>NamedSingleton\<close> called with no option argument register
  with the default option, whose \<open>delay\<close> is true: the registration is that of a
  LazySingleton. It returns without invoking any function (the call log is unchanged),
  and when it succeeds the binding stored is a LazySingleton with an empty cache.
\<close>

theorem C10_Singleton_without_options_is_lazy:
  "delay defaultOption \<and>
   Singleton k r [] w = bind k r delaySingletonType defaultOption w \<and>
   NamedSingleton k n r [] w = bind k r delaySingletonType (defaultOption\<lparr>name := n\<rparr>) w \<and>
   (\<exists>res w'. Singleton k r [] w = Some (res, w') \<and> calls w' = calls w \<and>
      (res = Return None \<longrightarrow>
         (\<exists>f. r = Function f \<and>
            heap w' = heap w @ [\<lparr>bindType = delaySingletonType, resolver = f, concrete = Nil\<rparr>]))) \<and>
   (\<exists>res w'. NamedSingleton k n r [] w = Some (res, w') \<and> calls w' = calls w \<and>
      (res = Return None \<longrightarrow>
         (\<exists>f. r = Function f \<and>
            heap w' = heap w @ [\<lparr>bindType = delaySingletonType, resolver = f, concrete = Nil\<rparr>])))"
proof -
  have d: "delay defaultOption" by (simp add: defaultOption_def)
  have s: "Singleton k r [] w = bind k r delaySingletonType defaultOption w"
    by (simp add: Singleton_def LoadOption_def singleton_def d)
  have n: "NamedSingleton k n r [] w = bind k r delaySingletonType (defaultOption\<lparr>name := n\<rparr>) w"
    by (simp add: NamedSingleton_def LoadOption_def singleton_def d)
  have ne: "delaySingletonType \<noteq> singletonType" by simp
  show ?thesis
    using d s n bind_not_eager [OF ne, of k r defaultOption w]
      bind_not_eager [OF ne, of k r "defaultOption\<lparr>name := n\<rparr>" w]
    by simp
qed

theorem C10_witness:
  "Singleton 0 (Function newShape) [] New =
     Some (Return None,
       \<lparr>container = [Shape \<mapsto> ['''' \<mapsto> 0]],
        heap = [\<lparr>bindType = delaySingletonType, resolver = newShape, concrete = Nil\<rparr>],
        calls = []\<rparr>) \<and>
   calls New = []"
proof -
  have e: "Singleton 0 (Function newShape) [] New =
     Some (Return None,
       \<lparr>container = [Shape \<mapsto> ['''' \<mapsto> 0]],
        heap = [\<lparr>bindType = delaySingletonType, resolver = newShape, concrete = Nil\<rparr>],
        calls = []\<rparr>)"
    using C10_Singleton_without_options_is_lazy [of 0 "Function newShape" New]
    by (simp add: bind_def bind_entry_def NumOut_def Out_def newShape_def New_def
        defaultOption_def)
  then show ?thesis by (simp add: New_def)
qed

end
